theory Spec2Isabelle
  imports Main
begin

text \<open>
  A shallow embedding of the repository: the logging facility of logger.py, the API client
  of github_api.py, the uploader of s3_uploader.py and the orchestrator of main.py. The
  libraries they call are not part of the repository. What the provider answers to
  \<^verbatim>\<open>requests.request\<close> and what the store answers to \<^verbatim>\<open>put_object\<close> are parameters of every run;
  the few library functions the program relies on (\<^verbatim>\<open>str\<close>, \<^verbatim>\<open>raise_for_status\<close>, the truth value
  of a response, the level filter of \<^verbatim>\<open>logging\<close>) follow their documentation. A run threads a
  state through the calls: the log records written, the calls made to the two libraries, and
  the objects in the store.
\<close>

section \<open>Python values and their textual form\<close>

text \<open>
  The values that flow through the program are what \<^verbatim>\<open>response.json()\<close> decodes and what
  \<^verbatim>\<open>put_object\<close> answers: \<^verbatim>\<open>None\<close>, booleans, integers, floats, strings, lists and
  dictionaries with string keys (in insertion order). A float is identified with the text
  that \<^verbatim>\<open>repr\<close> prints for it; floating-point arithmetic is not modelled and the program does
  none. A string is held as the bytes of its UTF-8 form, a surrogate as the three bytes the
  same scheme gives it. Resource limits of the interpreter (recursion depth, memory, the cap
  on the digits of an integer conversion) are not modelled.
\<close>

datatype pyval =
    PyNone
  | PyBool bool
  | PyInt int
  | PyFloat string
  | PyStr string
  | PyList "pyval list"
  | PyDict "(string \<times> pyval) list"

text \<open>Decimal digits of an integer, as \<^verbatim>\<open>str(n)\<close> and an f-string print it.\<close>

fun show_nat :: "nat \<Rightarrow> string" where
  "show_nat n =
     (if n < 10 then [''0123456789'' ! n]
      else show_nat (n div 10) @ [''0123456789'' ! (n mod 10)])"

declare show_nat.simps [simp del]

definition show_int :: "int \<Rightarrow> string" where
  "show_int i = (if i < 0 then CHR ''-'' # show_nat (nat (- i)) else show_nat (nat i))"

text \<open>
  The characters of a string: a first byte and the continuation bytes (0x80 to 0xBF) that
  belong to it, one after a first byte from 0xC0, two from 0xE0, three from 0xF0; and the
  code point they encode. On the UTF-8 form of a text this is the list of its characters;
  a byte string that is the form of no text is cut up all the same, and stands for no value
  of the program.
\<close>

definition is_continuation :: "char \<Rightarrow> bool" where
  "is_continuation c = (128 \<le> (of_char c :: nat) \<and> (of_char c :: nat) < 192)"

definition following :: "char \<Rightarrow> nat" where
  "following c =
     (if 240 \<le> (of_char c :: nat) \<and> (of_char c :: nat) < 248 then 3
      else if 224 \<le> (of_char c :: nat) \<and> (of_char c :: nat) < 240 then 2
      else if 192 \<le> (of_char c :: nat) \<and> (of_char c :: nat) < 224 then 1
      else 0)"

fun characters :: "string \<Rightarrow> string list" where
  "characters [] = []"
| "characters (c # cs) =
     (c # take (length (takeWhile is_continuation (take (following c) cs))) cs) #
     characters (drop (length (takeWhile is_continuation (take (following c) cs))) cs)"

fun code_point :: "string \<Rightarrow> nat" where
  "code_point [a] = of_char a"
| "code_point [a, b] = (of_char a mod 32) * 64 + of_char b mod 64"
| "code_point [a, b, c] =
     ((of_char a mod 16) * 64 + of_char b mod 64) * 64 + of_char c mod 64"
| "code_point [a, b, c, d] =
     (((of_char a mod 8) * 64 + of_char b mod 64) * 64 + of_char c mod 64) * 64 +
     of_char d mod 64"
| "code_point bs = 0"

text \<open>
  \<^verbatim>\<open>repr\<close> of a string: double quotes when the text has a single quote and no double quote,
  single quotes otherwise. The quote character and the backslash are escaped with a
  backslash; tab, newline and carriage return are written \<^verbatim>\<open>\t\<close>, \<^verbatim>\<open>\n\<close>, \<^verbatim>\<open>\r\<close>; the other
  control characters and DEL are written \<^verbatim>\<open>\xhh\<close>; the other ASCII characters are copied. A
  character beyond ASCII is copied when the Unicode database of the interpreter holds it
  printable, and written \<^verbatim>\<open>\xhh\<close>, \<^verbatim>\<open>\uhhhh\<close> or \<^verbatim>\<open>\Uhhhhhhhh\<close>, by the size of its code point,
  when it does not. That database differs between versions of the interpreter and is not
  part of the repository: it is the parameter \<open>printable\<close>, a predicate on code points.
\<close>

definition quote_char :: "string \<Rightarrow> char" where
  "quote_char s = (if CHR 0x27 \<in> set s \<and> CHR 0x22 \<notin> set s then CHR 0x22 else CHR 0x27)"

definition hex2 :: "nat \<Rightarrow> string" where
  "hex2 n = [''0123456789abcdef'' ! (n div 16 mod 16), ''0123456789abcdef'' ! (n mod 16)]"

definition hex4 :: "nat \<Rightarrow> string" where
  "hex4 n = hex2 (n div 256) @ hex2 n"

definition hex8 :: "nat \<Rightarrow> string" where
  "hex8 n = hex4 (n div 65536) @ hex4 n"

definition escape_char :: "(nat \<Rightarrow> bool) \<Rightarrow> char \<Rightarrow> string \<Rightarrow> string" where
  "escape_char printable q ch =
     (if ch = [q] \<or> ch = [CHR 0x5C] then CHR 0x5C # ch
      else if ch = [CHR 0x09] then [CHR 0x5C, CHR ''t'']
      else if ch = [CHR 0x0A] then [CHR 0x5C, CHR ''n'']
      else if ch = [CHR 0x0D] then [CHR 0x5C, CHR ''r'']
      else if code_point ch < 32 \<or> code_point ch = 127
        then [CHR 0x5C, CHR ''x''] @ hex2 (code_point ch)
      else if code_point ch < 127 then ch
      else if printable (code_point ch) then ch
      else if code_point ch < 256 then [CHR 0x5C, CHR ''x''] @ hex2 (code_point ch)
      else if code_point ch < 65536 then [CHR 0x5C, CHR ''u''] @ hex4 (code_point ch)
      else [CHR 0x5C, CHR ''U''] @ hex8 (code_point ch))"

definition str_repr :: "(nat \<Rightarrow> bool) \<Rightarrow> string \<Rightarrow> string" where
  "str_repr printable s =
     (let q = quote_char s
      in [q] @ concat (map (escape_char printable q) (characters s)) @ [q])"

text \<open>Items of a list or dictionary display are separated by a comma and a space.\<close>

fun join_items :: "string list \<Rightarrow> string" where
  "join_items [] = []"
| "join_items [x] = x"
| "join_items (x # y # ys) = x @ '', '' @ join_items (y # ys)"

fun py_repr :: "(nat \<Rightarrow> bool) \<Rightarrow> pyval \<Rightarrow> string" where
  "py_repr printable PyNone = ''None''"
| "py_repr printable (PyBool b) = (if b then ''True'' else ''False'')"
| "py_repr printable (PyInt i) = show_int i"
| "py_repr printable (PyFloat r) = r"
| "py_repr printable (PyStr s) = str_repr printable s"
| "py_repr printable (PyList xs) = ''['' @ join_items (map (py_repr printable) xs) @ '']''"
| "py_repr printable (PyDict kvs) =
     ''{'' @ join_items (map (\<lambda>kv. str_repr printable (fst kv) @ '': '' @
                                   py_repr printable (snd kv)) kvs) @ ''}''"

text \<open>\<^verbatim>\<open>str(x)\<close>: a string is its own text, every other value prints as its \<^verbatim>\<open>repr\<close>.\<close>

definition py_str :: "(nat \<Rightarrow> bool) \<Rightarrow> pyval \<Rightarrow> string" where
  "py_str printable v = (case v of PyStr s \<Rightarrow> s | _ \<Rightarrow> py_repr printable v)"

section \<open>JSON documents\<close>

text \<open>
  Whether a text is a JSON document, by the grammar of RFC 8259: white space, the literals
  \<^verbatim>\<open>true\<close>, \<^verbatim>\<open>false\<close>, \<^verbatim>\<open>null\<close>, numbers, strings in double quotes, arrays and objects. The
  scanner returns the text left after a value. Its fuel bounds the nesting and the number
  of items, and \<open>json_text\<close> gives it one more than the length of the text. \<open>Reject\<close> is a
  text that the grammar refuses; a lack of fuel is \<open>OutOfFuel\<close>.
\<close>

datatype scan = Reject | OutOfFuel | Accept string

definition is_ws :: "char \<Rightarrow> bool" where
  "is_ws c = (c = CHR 0x20 \<or> c = CHR 0x09 \<or> c = CHR 0x0A \<or> c = CHR 0x0D)"

fun skip_ws :: "string \<Rightarrow> string" where
  "skip_ws [] = []"
| "skip_ws (c # cs) = (if is_ws c then skip_ws cs else c # cs)"

definition is_digit :: "char \<Rightarrow> bool" where
  "is_digit c = (c \<in> set ''0123456789'')"

definition is_hex :: "char \<Rightarrow> bool" where
  "is_hex c = (c \<in> set ''0123456789abcdefABCDEF'')"

fun json_string :: "string \<Rightarrow> string option" where
  "json_string [] = None"
| "json_string (c # cs) =
     (if c = CHR 0x22 then Some cs
      else if c = CHR 0x5C then
        (case cs of
           [] \<Rightarrow> None
         | e # es \<Rightarrow>
             if e \<in> set [CHR 0x22, CHR 0x5C, CHR ''/'', CHR ''b'', CHR ''f'', CHR ''n'', CHR ''r'', CHR ''t'']
             then json_string es
             else if e = CHR ''u'' \<and> 4 \<le> length es \<and> list_all is_hex (take 4 es)
             then json_string (drop 4 es)
             else None)
      else if (of_char c :: nat) < 32 then None
      else json_string cs)"

definition json_digits :: "string \<Rightarrow> string option" where
  "json_digits s =
     (case s of [] \<Rightarrow> None | c # cs \<Rightarrow> if is_digit c then Some (dropWhile is_digit cs) else None)"

definition json_frac :: "string \<Rightarrow> string option" where
  "json_frac s =
     (case s of [] \<Rightarrow> Some s | c # cs \<Rightarrow> if c = CHR ''.'' then json_digits cs else Some s)"

definition json_exp :: "string \<Rightarrow> string option" where
  "json_exp s =
     (case s of
        [] \<Rightarrow> Some s
      | c # cs \<Rightarrow>
          if c = CHR ''e'' \<or> c = CHR ''E'' then
            (case cs of
               [] \<Rightarrow> None
             | d # ds \<Rightarrow> if d = CHR ''+'' \<or> d = CHR ''-'' then json_digits ds else json_digits cs)
          else Some s)"

definition json_number :: "string \<Rightarrow> string option" where
  "json_number s =
     (case (case s of [] \<Rightarrow> s | c # cs \<Rightarrow> if c = CHR ''-'' then cs else s) of
        [] \<Rightarrow> None
      | c # cs \<Rightarrow>
          if is_digit c then
            (case json_frac (if c = CHR ''0'' then cs else dropWhile is_digit cs) of
               None \<Rightarrow> None
             | Some r \<Rightarrow> json_exp r)
          else None)"

fun json_value :: "nat \<Rightarrow> string \<Rightarrow> scan"
  and json_elements :: "nat \<Rightarrow> string \<Rightarrow> scan"
  and json_members :: "nat \<Rightarrow> string \<Rightarrow> scan" where
  "json_value 0 s = OutOfFuel"
| "json_value (Suc n) s =
     (case s of
        [] \<Rightarrow> Reject
      | c # cs \<Rightarrow>
          if c = CHR 0x22 then (case json_string cs of None \<Rightarrow> Reject | Some r \<Rightarrow> Accept r)
          else if c = CHR ''{'' then
            (case skip_ws cs of
               [] \<Rightarrow> Reject
             | d # ds \<Rightarrow> if d = CHR ''}'' then Accept ds else json_members n (d # ds))
          else if c = CHR ''['' then
            (case skip_ws cs of
               [] \<Rightarrow> Reject
             | d # ds \<Rightarrow> if d = CHR '']'' then Accept ds else json_elements n (d # ds))
          else if take 4 s = ''true'' then Accept (drop 4 s)
          else if take 5 s = ''false'' then Accept (drop 5 s)
          else if take 4 s = ''null'' then Accept (drop 4 s)
          else (case json_number s of None \<Rightarrow> Reject | Some r \<Rightarrow> Accept r))"
| "json_elements 0 s = OutOfFuel"
| "json_elements (Suc n) s =
     (case json_value n s of
        Accept r \<Rightarrow>
          (case skip_ws r of
             [] \<Rightarrow> Reject
           | d # ds \<Rightarrow>
               if d = CHR '','' then json_elements n (skip_ws ds)
               else if d = CHR '']'' then Accept ds
               else Reject)
      | other \<Rightarrow> other)"
| "json_members 0 s = OutOfFuel"
| "json_members (Suc n) s =
     (case s of
        [] \<Rightarrow> Reject
      | c # cs \<Rightarrow>
          if c = CHR 0x22 then
            (case json_string cs of
               None \<Rightarrow> Reject
             | Some r \<Rightarrow>
                 (case skip_ws r of
                    [] \<Rightarrow> Reject
                  | d # ds \<Rightarrow>
                      if d = CHR '':'' then
                        (case json_value n (skip_ws ds) of
                           Accept r' \<Rightarrow>
                             (case skip_ws r' of
                                [] \<Rightarrow> Reject
                              | f # fs \<Rightarrow>
                                  if f = CHR '','' then json_members n (skip_ws fs)
                                  else if f = CHR ''}'' then Accept fs
                                  else Reject)
                         | other \<Rightarrow> other)
                      else Reject))
          else Reject)"

definition json_text :: "string \<Rightarrow> scan" where
  "json_text s = json_value (Suc (length s)) (skip_ws s)"

definition json_valid :: "string \<Rightarrow> bool" where
  "json_valid s = (case json_text s of Accept r \<Rightarrow> skip_ws r = [] | _ \<Rightarrow> False)"

section \<open>Exceptions\<close>

text \<open>
  The \<^verbatim>\<open>except\<close> clauses of the program select by class: \<^verbatim>\<open>RequestException\<close> in the API
  client, \<^verbatim>\<open>BotoCoreError\<close> and \<^verbatim>\<open>ClientError\<close> in the uploader, \<^verbatim>\<open>Exception\<close> in the
  orchestrator. An exception value carries the first of the three library classes it is an
  instance of (\<open>Exception\<close> when it is an instance of none) and the text \<^verbatim>\<open>str(e)\<close> that an
  f-string prints for it. Every value is an instance of \<^verbatim>\<open>Exception\<close>; \<^verbatim>\<open>KeyboardInterrupt\<close>
  and \<^verbatim>\<open>SystemExit\<close>, which are not, come from signals and interpreter exit and are outside
  the model.
\<close>

datatype exn_class = RequestException | BotoCoreError | ClientError | Exception

datatype exn = Exn exn_class string

fun exn_class_of :: "exn \<Rightarrow> exn_class" where
  "exn_class_of (Exn c m) = c"

fun exn_str :: "exn \<Rightarrow> string" where
  "exn_str (Exn c m) = m"

text \<open>\<^verbatim>\<open>isinstance(e, cls)\<close> for the classes the program names.\<close>

fun isinstance :: "exn \<Rightarrow> exn_class \<Rightarrow> bool" where
  "isinstance e Exception = True"
| "isinstance e c = (exn_class_of e = c)"

section \<open>The logging facility (logger.py)\<close>

datatype level = DEBUG | INFO | WARNING | ERROR | CRITICAL

fun levelno :: "level \<Rightarrow> nat" where
  "levelno DEBUG = 10"
| "levelno INFO = 20"
| "levelno WARNING = 30"
| "levelno ERROR = 40"
| "levelno CRITICAL = 50"

text \<open>
  A \<^verbatim>\<open>log_this\<close> object wraps the logger \<^verbatim>\<open>logging.getLogger(name)\<close>, set to \<open>level\<close>, with
  one file handler and one console handler, both at \<open>level\<close> and with the formatter
  \<^verbatim>\<open>asctime - name - levelname - message\<close>. A record is what one logging call hands to the two
  handlers; the time stamp and the file name (which holds the time) are left out.
\<close>

record log_this =
  logger_name :: string
  logger_level :: level

record log_record =
  record_name :: string
  record_level :: level
  record_message :: string

definition log_this_init :: "string \<Rightarrow> level \<Rightarrow> log_this" where
  "log_this_init name lv = \<lparr>logger_name = name, logger_level = lv\<rparr>"

section \<open>The world outside the program\<close>

text \<open>
  Arguments of \<^verbatim>\<open>requests.request(method, url, headers=..., params=...)\<close>, the fields of a
  \<^verbatim>\<open>requests.Response\<close> that the program reads, and the keyword arguments of
  \<^verbatim>\<open>put_object(Body=..., Bucket=..., Key=...)\<close>. \<open>json_result\<close> is what \<^verbatim>\<open>response.json()\<close> does:
  it returns the decoded body, or raises when the body is not a JSON document.
\<close>

record http_request =
  http_method :: string
  url :: string
  request_headers :: "(string \<times> string) list"
  params :: "pyval option"

record response =
  status_code :: int
  reason :: string
  response_url :: string
  json_result :: "exn + pyval"

record put_object_args =
  Body :: string
  Bucket :: string
  Key :: string

datatype call = HttpCall http_request | PutObject put_object_args

text \<open>
  The state: the log records written so far, the calls made to the two libraries so far, and
  the objects held by the store, by bucket and key.
\<close>

record world =
  logged :: "log_record list"
  calls :: "call list"
  objects :: "string \<times> string \<Rightarrow> string option"

text \<open>
  The surroundings of a run: which code points beyond ASCII the interpreter holds printable,
  and what the provider and the store answer, given the calls made before (either may
  raise).
\<close>

record env =
  isprintable :: "nat \<Rightarrow> bool"
  http_backend :: "call list \<Rightarrow> http_request \<Rightarrow> exn + response"
  s3_backend :: "call list \<Rightarrow> put_object_args \<Rightarrow> exn + pyval"

text \<open>A statement of the program: it runs in a world, raises or returns, and leaves a world.\<close>

type_synonym 'a py = "world \<Rightarrow> (exn + 'a) \<times> world"

definition py_return :: "'a \<Rightarrow> 'a py" where
  "py_return x w = (Inr x, w)"

definition py_raise :: "exn \<Rightarrow> 'a py" where
  "py_raise e w = (Inl e, w)"

text \<open>Sequencing: a raise in the first statement skips the rest.\<close>

definition py_bind :: "'a py \<Rightarrow> ('a \<Rightarrow> 'b py) \<Rightarrow> 'b py" where
  "py_bind m f w = (case m w of (Inl e, w') \<Rightarrow> (Inl e, w') | (Inr x, w') \<Rightarrow> f x w')"

text \<open>\<^verbatim>\<open>try: body except cls as e: handler(e)\<close>, for a tuple of classes.\<close>

definition py_try :: "'a py \<Rightarrow> exn_class list \<Rightarrow> (exn \<Rightarrow> 'a py) \<Rightarrow> 'a py" where
  "py_try body classes handler w =
     (case body w of
        (Inl e, w') \<Rightarrow> if \<exists>c \<in> set classes. isinstance e c then handler e w' else (Inl e, w')
      | (Inr x, w') \<Rightarrow> (Inr x, w'))"

text \<open>
  The methods \<^verbatim>\<open>debug\<close>, \<^verbatim>\<open>info\<close>, \<^verbatim>\<open>warning\<close>, \<^verbatim>\<open>error\<close>, \<^verbatim>\<open>critical\<close> of \<^verbatim>\<open>log_this\<close> pass the
  message to the wrapped logger, which drops it below its level.
\<close>

definition makeRecord :: "log_this \<Rightarrow> level \<Rightarrow> string \<Rightarrow> log_record" where
  "makeRecord lg lv message =
     \<lparr>record_name = logger_name lg, record_level = lv, record_message = message\<rparr>"

definition log_call :: "log_this \<Rightarrow> level \<Rightarrow> string \<Rightarrow> unit py" where
  "log_call lg lv message w =
     (Inr (),
      if levelno (logger_level lg) \<le> levelno lv
      then w\<lparr>logged := logged w @ [makeRecord lg lv message]\<rparr>
      else w)"

definition debug :: "log_this \<Rightarrow> string \<Rightarrow> unit py" where
  "debug lg message = log_call lg DEBUG message"

definition info :: "log_this \<Rightarrow> string \<Rightarrow> unit py" where
  "info lg message = log_call lg INFO message"

definition warning :: "log_this \<Rightarrow> string \<Rightarrow> unit py" where
  "warning lg message = log_call lg WARNING message"

definition error :: "log_this \<Rightarrow> string \<Rightarrow> unit py" where
  "error lg message = log_call lg ERROR message"

definition critical :: "log_this \<Rightarrow> string \<Rightarrow> unit py" where
  "critical lg message = log_call lg CRITICAL message"

text \<open>
  \<^verbatim>\<open>requests.request\<close>: the call is made and the provider's answer comes back.
\<close>

definition requests_request :: "env \<Rightarrow> http_request \<Rightarrow> response py" where
  "requests_request env rq w = (http_backend env (calls w) rq, w\<lparr>calls := calls w @ [HttpCall rq]\<rparr>)"

text \<open>
  \<^verbatim>\<open>Response.raise_for_status\<close> builds a message for a status from 400 to 499 (client
  error) and from 500 to 599 (server error) and raises \<^verbatim>\<open>HTTPError\<close>, a \<^verbatim>\<open>RequestException\<close>,
  when there is one. \<^verbatim>\<open>Response.ok\<close>, which is also the truth value of a response, is whether
  \<^verbatim>\<open>raise_for_status\<close> passes.
\<close>

definition http_error_msg :: "response \<Rightarrow> string option" where
  "http_error_msg r =
     (if 400 \<le> status_code r \<and> status_code r < 500
      then Some (show_int (status_code r) @ '' Client Error: '' @ reason r @
                 '' for url: '' @ response_url r)
      else if 500 \<le> status_code r \<and> status_code r < 600
      then Some (show_int (status_code r) @ '' Server Error: '' @ reason r @
                 '' for url: '' @ response_url r)
      else None)"

definition raise_for_status :: "response \<Rightarrow> unit py" where
  "raise_for_status r =
     (case http_error_msg r of
        Some msg \<Rightarrow> py_raise (Exn RequestException msg)
      | None \<Rightarrow> py_return ())"

definition ok :: "response \<Rightarrow> bool" where
  "ok r = (http_error_msg r = None)"

text \<open>\<^verbatim>\<open>response.json()\<close>.\<close>

definition json :: "response \<Rightarrow> pyval py" where
  "json r = (case json_result r of Inl e \<Rightarrow> py_raise e | Inr v \<Rightarrow> py_return v)"

text \<open>
  \<^verbatim>\<open>put_object\<close> of the S3 client: the call is made; when the store accepts it, the body
  replaces whatever the bucket held at the key.
\<close>

definition put_object :: "env \<Rightarrow> put_object_args \<Rightarrow> pyval py" where
  "put_object env args w =
     (let w' = w\<lparr>calls := calls w @ [PutObject args]\<rparr>
      in case s3_backend env (calls w) args of
           Inl e \<Rightarrow> (Inl e, w')
         | Inr r \<Rightarrow> (Inr r, w'\<lparr>objects := (objects w')((Bucket args, Key args) \<mapsto> Body args)\<rparr>))"

section \<open>The API client (github_api.py)\<close>

text \<open>The module's logger: \<^verbatim>\<open>logger = log_this(__name__, level=logging.DEBUG)\<close>.\<close>

definition github_api_logger :: log_this where
  "github_api_logger = log_this_init ''github_api'' DEBUG"

record GitHubAPI =
  base_url :: string
  headers :: "(string \<times> string) list"

definition GitHubAPI_init :: "string \<Rightarrow> string \<Rightarrow> GitHubAPI py" where
  "GitHubAPI_init b token =
     py_bind (info github_api_logger ''GitHub API client initialized'')
       (\<lambda>_. py_return \<lparr>base_url = b, headers = [(''Authorization'', ''token '' @ token)]\<rparr>)"

definition handle_request_error :: "GitHubAPI \<Rightarrow> exn \<Rightarrow> unit py" where
  "handle_request_error self err =
     error github_api_logger (''Error during request: '' @ exn_str err)"

definition send_http_request ::
  "env \<Rightarrow> GitHubAPI \<Rightarrow> string \<Rightarrow> string \<Rightarrow> pyval option \<Rightarrow> response option py" where
  "send_http_request env self u m ps =
     py_try
       (py_bind (requests_request env
                   \<lparr>http_method = m, url = u, request_headers = headers self, params = ps\<rparr>)
          (\<lambda>response.
             py_bind (raise_for_status response)
               (\<lambda>_. py_bind (info github_api_logger ''Request successful'')
                  (\<lambda>_. py_return (Some response)))))
       [RequestException]
       (\<lambda>err. py_bind (handle_request_error self err) (\<lambda>_. py_return None))"

text \<open>
  \<^verbatim>\<open>response.json() if response else None\<close>: the test is false for \<^verbatim>\<open>None\<close> and for a response
  that is not \<^verbatim>\<open>ok\<close>.
\<close>

definition make_request ::
  "env \<Rightarrow> GitHubAPI \<Rightarrow> string \<Rightarrow> string \<Rightarrow> pyval option \<Rightarrow> pyval py" where
  "make_request env self endpoint m ps =
     (let u = base_url self @ endpoint
      in py_bind (info github_api_logger (''Making a '' @ m @ '' request to '' @ u))
           (\<lambda>_. py_bind (send_http_request env self u m ps)
              (\<lambda>response.
                 case response of
                   None \<Rightarrow> py_return PyNone
                 | Some r \<Rightarrow> if ok r then json r else py_return PyNone)))"

definition get_user_details :: "env \<Rightarrow> GitHubAPI \<Rightarrow> string \<Rightarrow> pyval py" where
  "get_user_details env self username =
     py_bind (info github_api_logger (''Fetching user details for '' @ username))
       (\<lambda>_. make_request env self (''users/'' @ username) ''GET'' None)"

definition get_user_repos :: "env \<Rightarrow> GitHubAPI \<Rightarrow> string \<Rightarrow> pyval py" where
  "get_user_repos env self username =
     py_bind (info github_api_logger (''Fetching repositories for '' @ username))
       (\<lambda>_. make_request env self (''users/'' @ username @ ''/repos'') ''GET'' None)"

section \<open>The storage uploader (s3_uploader.py)\<close>

definition s3_uploader_logger :: log_this where
  "s3_uploader_logger = log_this_init ''s3_uploader'' DEBUG"

record S3Uploader =
  bucket_name :: string

definition S3Uploader_init :: "string \<Rightarrow> S3Uploader py" where
  "S3Uploader_init b =
     py_bind (info s3_uploader_logger ''S3 Uploader initialized'')
       (\<lambda>_. py_return \<lparr>bucket_name = b\<rparr>)"

definition log_s3_upload_error :: "S3Uploader \<Rightarrow> exn \<Rightarrow> unit py" where
  "log_s3_upload_error self err =
     error s3_uploader_logger (''Error uploading data to S3: '' @ exn_str err)"

definition upload_data_to_s3 :: "env \<Rightarrow> S3Uploader \<Rightarrow> pyval \<Rightarrow> string \<Rightarrow> pyval py" where
  "upload_data_to_s3 env self data k =
     py_try
       (py_bind (put_object env
                   \<lparr>Body = py_str (isprintable env) data, Bucket = bucket_name self, Key = k\<rparr>)
          (\<lambda>response.
             py_bind (info s3_uploader_logger
                        (''Data uploaded to '' @ bucket_name self @ ''/'' @ k))
               (\<lambda>_. py_return response)))
       [BotoCoreError, ClientError]
       (\<lambda>err. py_bind (log_s3_upload_error self err) (\<lambda>_. py_return PyNone))"

section \<open>The orchestrator (main.py)\<close>

text \<open>
  The functions of main.py log through the module's global \<^verbatim>\<open>logger\<close>, which the module
  binds only inside \<^verbatim>\<open>if __name__ == "__main__":\<close>, as \<^verbatim>\<open>log_this(__name__, level=logging.DEBUG)\<close>.
  \<open>main_logger name\<close> is that global in a module loaded under \<open>name\<close>; the orchestrator takes
  it as its argument \<open>g\<close>. Looking up a global that is not bound raises \<^verbatim>\<open>NameError\<close>.
\<close>

definition main_logger :: "string \<Rightarrow> log_this option" where
  "main_logger name = (if name = ''__main__'' then Some (log_this_init name DEBUG) else None)"

definition NameError :: "string \<Rightarrow> exn" where
  "NameError x = Exn Exception (''name '' @ [CHR 0x27] @ x @ [CHR 0x27] @ '' is not defined'')"

definition global_logger :: "log_this option \<Rightarrow> log_this py" where
  "global_logger g = (case g of None \<Rightarrow> py_raise (NameError ''logger'') | Some lg \<Rightarrow> py_return lg)"

definition success_line :: "string \<Rightarrow> string" where
  "success_line username =
     ''User Details and Repositories for '' @ [CHR 0x27] @ username @ [CHR 0x27] @ '' uploaded to S3''"

definition upload_sequence ::
  "env \<Rightarrow> log_this option \<Rightarrow> GitHubAPI \<Rightarrow> S3Uploader \<Rightarrow> string \<Rightarrow> pyval py" where
  "upload_sequence env g api_client uploader username =
     py_bind (get_user_details env api_client username)
       (\<lambda>user_details. py_bind (get_user_repos env api_client username)
          (\<lambda>user_repos.
             py_bind (upload_data_to_s3 env uploader user_details (username @ ''_details.json''))
               (\<lambda>_. py_bind (upload_data_to_s3 env uploader user_repos (username @ ''_repos.json''))
                  (\<lambda>_. py_bind (global_logger g)
                     (\<lambda>lg. py_bind (info lg (success_line username))
                        (\<lambda>_. py_return PyNone))))))"

definition upload_github_data_to_s3 ::
  "env \<Rightarrow> log_this option \<Rightarrow> GitHubAPI \<Rightarrow> S3Uploader \<Rightarrow> string \<Rightarrow> pyval py" where
  "upload_github_data_to_s3 env g api_client uploader username =
     py_try (upload_sequence env g api_client uploader username)
       [Exception]
       (\<lambda>e. py_bind (global_logger g)
          (\<lambda>lg. py_bind (error lg
                    (''An error occurred during data fetching or uploading: '' @ exn_str e))
             (\<lambda>_. py_return PyNone)))"

section \<open>Example providers, stores and clients\<close>

definition empty_world :: world where
  "empty_world = \<lparr>logged = [], calls = [], objects = (\<lambda>_. None)\<rparr>"

definition example_api :: GitHubAPI where
  "example_api =
     \<lparr>base_url = ''https://api.example.com/'', headers = [(''Authorization'', ''token abc'')]\<rparr>"

definition example_uploader :: S3Uploader where
  "example_uploader = \<lparr>bucket_name = ''github-data''\<rparr>"

definition octocat_details :: pyval where
  "octocat_details = PyDict [(''login'', PyStr ''octocat''), (''id'', PyInt 1)]"

definition octocat_repos :: pyval where
  "octocat_repos = PyList [PyDict [(''name'', PyStr ''Hello-World''), (''fork'', PyBool False)]]"

definition put_ok :: pyval where
  "put_ok = PyDict [(''ETag'', PyStr ''9b2cf535f27731c974343645a3985328'')]"

definition decode_error :: exn where
  "decode_error = Exn RequestException ''Expecting value: line 1 column 1 (char 0)''"

definition connection_refused :: exn where
  "connection_refused = Exn RequestException ''Connection refused''"

definition access_denied :: exn where
  "access_denied =
     Exn ClientError ''An error occurred (AccessDenied) when calling the PutObject operation''"

definition storage_down :: exn where
  "storage_down = Exn Exception ''storage backend unavailable''"

text \<open>
  The code points from 128 on that \<^verbatim>\<open>str.isprintable\<close> of CPython 3.11 (Unicode 14.0.0) holds
  not printable, as closed ranges: the general categories Cc, Cf, Cs, Co, Cn, Zl, Zp and Zs.
\<close>

definition cpython_3_11_nonprintable :: "(nat \<times> nat) list" where
  "cpython_3_11_nonprintable =
    [(128, 160), (173, 173), (888, 889), (896, 899), (907, 907), (909, 909), (930, 930),
     (1328, 1328), (1367, 1368), (1419, 1420), (1424, 1424), (1480, 1487), (1515, 1518),
     (1525, 1541), (1564, 1564), (1757, 1757), (1806, 1807), (1867, 1868), (1970, 1983),
     (2043, 2044), (2094, 2095), (2111, 2111), (2140, 2141), (2143, 2143), (2155, 2159),
     (2191, 2199), (2274, 2274), (2436, 2436), (2445, 2446), (2449, 2450), (2473, 2473),
     (2481, 2481), (2483, 2485), (2490, 2491), (2501, 2502), (2505, 2506), (2511, 2518),
     (2520, 2523), (2526, 2526), (2532, 2533), (2559, 2560), (2564, 2564), (2571, 2574),
     (2577, 2578), (2601, 2601), (2609, 2609), (2612, 2612), (2615, 2615), (2618, 2619),
     (2621, 2621), (2627, 2630), (2633, 2634), (2638, 2640), (2642, 2648), (2653, 2653),
     (2655, 2661), (2679, 2688), (2692, 2692), (2702, 2702), (2706, 2706), (2729, 2729),
     (2737, 2737), (2740, 2740), (2746, 2747), (2758, 2758), (2762, 2762), (2766, 2767),
     (2769, 2783), (2788, 2789), (2802, 2808), (2816, 2816), (2820, 2820), (2829, 2830),
     (2833, 2834), (2857, 2857), (2865, 2865), (2868, 2868), (2874, 2875), (2885, 2886),
     (2889, 2890), (2894, 2900), (2904, 2907), (2910, 2910), (2916, 2917), (2936, 2945),
     (2948, 2948), (2955, 2957), (2961, 2961), (2966, 2968), (2971, 2971), (2973, 2973),
     (2976, 2978), (2981, 2983), (2987, 2989), (3002, 3005), (3011, 3013), (3017, 3017),
     (3022, 3023), (3025, 3030), (3032, 3045), (3067, 3071), (3085, 3085), (3089, 3089),
     (3113, 3113), (3130, 3131), (3141, 3141), (3145, 3145), (3150, 3156), (3159, 3159),
     (3163, 3164), (3166, 3167), (3172, 3173), (3184, 3190), (3213, 3213), (3217, 3217),
     (3241, 3241), (3252, 3252), (3258, 3259), (3269, 3269), (3273, 3273), (3278, 3284),
     (3287, 3292), (3295, 3295), (3300, 3301), (3312, 3312), (3315, 3327), (3341, 3341),
     (3345, 3345), (3397, 3397), (3401, 3401), (3408, 3411), (3428, 3429), (3456, 3456),
     (3460, 3460), (3479, 3481), (3506, 3506), (3516, 3516), (3518, 3519), (3527, 3529),
     (3531, 3534), (3541, 3541), (3543, 3543), (3552, 3557), (3568, 3569), (3573, 3584),
     (3643, 3646), (3676, 3712), (3715, 3715), (3717, 3717), (3723, 3723), (3748, 3748),
     (3750, 3750), (3774, 3775), (3781, 3781), (3783, 3783), (3790, 3791), (3802, 3803),
     (3808, 3839), (3912, 3912), (3949, 3952), (3992, 3992), (4029, 4029), (4045, 4045),
     (4059, 4095), (4294, 4294), (4296, 4300), (4302, 4303), (4681, 4681), (4686, 4687),
     (4695, 4695), (4697, 4697), (4702, 4703), (4745, 4745), (4750, 4751), (4785, 4785),
     (4790, 4791), (4799, 4799), (4801, 4801), (4806, 4807), (4823, 4823), (4881, 4881),
     (4886, 4887), (4955, 4956), (4989, 4991), (5018, 5023), (5110, 5111), (5118, 5119),
     (5760, 5760), (5789, 5791), (5881, 5887), (5910, 5918), (5943, 5951), (5972, 5983),
     (5997, 5997), (6001, 6001), (6004, 6015), (6110, 6111), (6122, 6127), (6138, 6143),
     (6158, 6158), (6170, 6175), (6265, 6271), (6315, 6319), (6390, 6399), (6431, 6431),
     (6444, 6447), (6460, 6463), (6465, 6467), (6510, 6511), (6517, 6527), (6572, 6575),
     (6602, 6607), (6619, 6621), (6684, 6685), (6751, 6751), (6781, 6782), (6794, 6799),
     (6810, 6815), (6830, 6831), (6863, 6911), (6989, 6991), (7039, 7039), (7156, 7163),
     (7224, 7226), (7242, 7244), (7305, 7311), (7355, 7356), (7368, 7375), (7419, 7423),
     (7958, 7959), (7966, 7967), (8006, 8007), (8014, 8015), (8024, 8024), (8026, 8026),
     (8028, 8028), (8030, 8030), (8062, 8063), (8117, 8117), (8133, 8133), (8148, 8149),
     (8156, 8156), (8176, 8177), (8181, 8181), (8191, 8207), (8232, 8239), (8287, 8303),
     (8306, 8307), (8335, 8335), (8349, 8351), (8385, 8399), (8433, 8447), (8588, 8591),
     (9255, 9279), (9291, 9311), (11124, 11125), (11158, 11158), (11508, 11512),
     (11558, 11558), (11560, 11564), (11566, 11567), (11624, 11630), (11633, 11646),
     (11671, 11679), (11687, 11687), (11695, 11695), (11703, 11703), (11711, 11711),
     (11719, 11719), (11727, 11727), (11735, 11735), (11743, 11743), (11870, 11903),
     (11930, 11930), (12020, 12031), (12246, 12271), (12284, 12288), (12352, 12352),
     (12439, 12440), (12544, 12548), (12592, 12592), (12687, 12687), (12772, 12783),
     (12831, 12831), (42125, 42127), (42183, 42191), (42540, 42559), (42744, 42751),
     (42955, 42959), (42962, 42962), (42964, 42964), (42970, 42993), (43053, 43055),
     (43066, 43071), (43128, 43135), (43206, 43213), (43226, 43231), (43348, 43358),
     (43389, 43391), (43470, 43470), (43482, 43485), (43519, 43519), (43575, 43583),
     (43598, 43599), (43610, 43611), (43715, 43738), (43767, 43776), (43783, 43784),
     (43791, 43792), (43799, 43807), (43815, 43815), (43823, 43823), (43884, 43887),
     (44014, 44015), (44026, 44031), (55204, 55215), (55239, 55242), (55292, 63743),
     (64110, 64111), (64218, 64255), (64263, 64274), (64280, 64284), (64311, 64311),
     (64317, 64317), (64319, 64319), (64322, 64322), (64325, 64325), (64451, 64466),
     (64912, 64913), (64968, 64974), (64976, 65007), (65050, 65055), (65107, 65107),
     (65127, 65127), (65132, 65135), (65141, 65141), (65277, 65280), (65471, 65473),
     (65480, 65481), (65488, 65489), (65496, 65497), (65501, 65503), (65511, 65511),
     (65519, 65531), (65534, 65535), (65548, 65548), (65575, 65575), (65595, 65595),
     (65598, 65598), (65614, 65615), (65630, 65663), (65787, 65791), (65795, 65798),
     (65844, 65846), (65935, 65935), (65949, 65951), (65953, 65999), (66046, 66175),
     (66205, 66207), (66257, 66271), (66300, 66303), (66340, 66348), (66379, 66383),
     (66427, 66431), (66462, 66462), (66500, 66503), (66518, 66559), (66718, 66719),
     (66730, 66735), (66772, 66775), (66812, 66815), (66856, 66863), (66916, 66926),
     (66939, 66939), (66955, 66955), (66963, 66963), (66966, 66966), (66978, 66978),
     (66994, 66994), (67002, 67002), (67005, 67071), (67383, 67391), (67414, 67423),
     (67432, 67455), (67462, 67462), (67505, 67505), (67515, 67583), (67590, 67591),
     (67593, 67593), (67638, 67638), (67641, 67643), (67645, 67646), (67670, 67670),
     (67743, 67750), (67760, 67807), (67827, 67827), (67830, 67834), (67868, 67870),
     (67898, 67902), (67904, 67967), (68024, 68027), (68048, 68049), (68100, 68100),
     (68103, 68107), (68116, 68116), (68120, 68120), (68150, 68151), (68155, 68158),
     (68169, 68175), (68185, 68191), (68256, 68287), (68327, 68330), (68343, 68351),
     (68406, 68408), (68438, 68439), (68467, 68471), (68498, 68504), (68509, 68520),
     (68528, 68607), (68681, 68735), (68787, 68799), (68851, 68857), (68904, 68911),
     (68922, 69215), (69247, 69247), (69290, 69290), (69294, 69295), (69298, 69375),
     (69416, 69423), (69466, 69487), (69514, 69551), (69580, 69599), (69623, 69631),
     (69710, 69713), (69750, 69758), (69821, 69821), (69827, 69839), (69865, 69871),
     (69882, 69887), (69941, 69941), (69960, 69967), (70007, 70015), (70112, 70112),
     (70133, 70143), (70162, 70162), (70207, 70271), (70279, 70279), (70281, 70281),
     (70286, 70286), (70302, 70302), (70314, 70319), (70379, 70383), (70394, 70399),
     (70404, 70404), (70413, 70414), (70417, 70418), (70441, 70441), (70449, 70449),
     (70452, 70452), (70458, 70458), (70469, 70470), (70473, 70474), (70478, 70479),
     (70481, 70486), (70488, 70492), (70500, 70501), (70509, 70511), (70517, 70655),
     (70748, 70748), (70754, 70783), (70856, 70863), (70874, 71039), (71094, 71095),
     (71134, 71167), (71237, 71247), (71258, 71263), (71277, 71295), (71354, 71359),
     (71370, 71423), (71451, 71452), (71468, 71471), (71495, 71679), (71740, 71839),
     (71923, 71934), (71943, 71944), (71946, 71947), (71956, 71956), (71959, 71959),
     (71990, 71990), (71993, 71994), (72007, 72015), (72026, 72095), (72104, 72105),
     (72152, 72153), (72165, 72191), (72264, 72271), (72355, 72367), (72441, 72703),
     (72713, 72713), (72759, 72759), (72774, 72783), (72813, 72815), (72848, 72849),
     (72872, 72872), (72887, 72959), (72967, 72967), (72970, 72970), (73015, 73017),
     (73019, 73019), (73022, 73022), (73032, 73039), (73050, 73055), (73062, 73062),
     (73065, 73065), (73103, 73103), (73106, 73106), (73113, 73119), (73130, 73439),
     (73465, 73647), (73649, 73663), (73714, 73726), (74650, 74751), (74863, 74863),
     (74869, 74879), (75076, 77711), (77811, 77823), (78895, 82943), (83527, 92159),
     (92729, 92735), (92767, 92767), (92778, 92781), (92863, 92863), (92874, 92879),
     (92910, 92911), (92918, 92927), (92998, 93007), (93018, 93018), (93026, 93026),
     (93048, 93052), (93072, 93759), (93851, 93951), (94027, 94030), (94088, 94094),
     (94112, 94175), (94181, 94191), (94194, 94207), (100344, 100351), (101590, 101631),
     (101641, 110575), (110580, 110580), (110588, 110588), (110591, 110591), (110883, 110927),
     (110931, 110947), (110952, 110959), (111356, 113663), (113771, 113775), (113789, 113791),
     (113801, 113807), (113818, 113819), (113824, 118527), (118574, 118575), (118599, 118607),
     (118724, 118783), (119030, 119039), (119079, 119080), (119155, 119162), (119275, 119295),
     (119366, 119519), (119540, 119551), (119639, 119647), (119673, 119807), (119893, 119893),
     (119965, 119965), (119968, 119969), (119971, 119972), (119975, 119976), (119981, 119981),
     (119994, 119994), (119996, 119996), (120004, 120004), (120070, 120070), (120075, 120076),
     (120085, 120085), (120093, 120093), (120122, 120122), (120127, 120127), (120133, 120133),
     (120135, 120137), (120145, 120145), (120486, 120487), (120780, 120781), (121484, 121498),
     (121504, 121504), (121520, 122623), (122655, 122879), (122887, 122887), (122905, 122906),
     (122914, 122914), (122917, 122917), (122923, 123135), (123181, 123183), (123198, 123199),
     (123210, 123213), (123216, 123535), (123567, 123583), (123642, 123646), (123648, 124895),
     (124903, 124903), (124908, 124908), (124911, 124911), (124927, 124927), (125125, 125126),
     (125143, 125183), (125260, 125263), (125274, 125277), (125280, 126064), (126133, 126208),
     (126270, 126463), (126468, 126468), (126496, 126496), (126499, 126499), (126501, 126502),
     (126504, 126504), (126515, 126515), (126520, 126520), (126522, 126522), (126524, 126529),
     (126531, 126534), (126536, 126536), (126538, 126538), (126540, 126540), (126544, 126544),
     (126547, 126547), (126549, 126550), (126552, 126552), (126554, 126554), (126556, 126556),
     (126558, 126558), (126560, 126560), (126563, 126563), (126565, 126566), (126571, 126571),
     (126579, 126579), (126584, 126584), (126589, 126589), (126591, 126591), (126602, 126602),
     (126620, 126624), (126628, 126628), (126634, 126634), (126652, 126703), (126706, 126975),
     (127020, 127023), (127124, 127135), (127151, 127152), (127168, 127168), (127184, 127184),
     (127222, 127231), (127406, 127461), (127491, 127503), (127548, 127551), (127561, 127567),
     (127570, 127583), (127590, 127743), (128728, 128732), (128749, 128751), (128765, 128767),
     (128884, 128895), (128985, 128991), (129004, 129007), (129009, 129023), (129036, 129039),
     (129096, 129103), (129114, 129119), (129160, 129167), (129198, 129199), (129202, 129279),
     (129620, 129631), (129646, 129647), (129653, 129655), (129661, 129663), (129671, 129679),
     (129709, 129711), (129723, 129727), (129734, 129743), (129754, 129759), (129768, 129775),
     (129783, 129791), (129939, 129939), (129995, 130031), (130042, 131071), (173792, 173823),
     (177977, 177983), (178206, 178207), (183970, 183983), (191457, 194559), (195102, 196607),
     (201547, 917759), (918000, 1114111)]"

definition cpython_3_11_isprintable :: "nat \<Rightarrow> bool" where
  "cpython_3_11_isprintable n =
     (\<not> list_ex (\<lambda>r. fst r \<le> n \<and> n \<le> snd r) cpython_3_11_nonprintable)"

text \<open>A provider that knows the user octocat and answers 404 for every other path.\<close>

definition env_octocat :: env where
  "env_octocat =
     \<lparr>isprintable = cpython_3_11_isprintable,
      http_backend = (\<lambda>cs rq.
        if url rq = ''https://api.example.com/users/octocat''
        then Inr \<lparr>status_code = 200, reason = ''OK'', response_url = url rq,
                  json_result = Inr octocat_details\<rparr>
        else if url rq = ''https://api.example.com/users/octocat/repos''
        then Inr \<lparr>status_code = 200, reason = ''OK'', response_url = url rq,
                  json_result = Inr octocat_repos\<rparr>
        else Inr \<lparr>status_code = 404, reason = ''Not Found'', response_url = url rq,
                  json_result = Inr (PyDict [(''message'', PyStr ''Not Found'')])\<rparr>),
      s3_backend = (\<lambda>cs args. Inr put_ok)\<rparr>"

text \<open>A provider that answers 404 to everything; the store accepts.\<close>

definition env_not_found :: env where
  "env_not_found =
     \<lparr>isprintable = cpython_3_11_isprintable,
      http_backend = (\<lambda>cs rq.
        Inr \<lparr>status_code = 404, reason = ''Not Found'', response_url = url rq,
             json_result = Inr (PyDict [(''message'', PyStr ''Not Found'')])\<rparr>),
      s3_backend = (\<lambda>cs args. Inr put_ok)\<rparr>"

text \<open>A provider that answers 304 with an empty body, which does not decode.\<close>

definition env_not_modified :: env where
  "env_not_modified =
     \<lparr>isprintable = cpython_3_11_isprintable,
      http_backend = (\<lambda>cs rq.
        Inr \<lparr>status_code = 304, reason = ''Not Modified'', response_url = url rq,
             json_result = Inl decode_error\<rparr>),
      s3_backend = (\<lambda>cs args. Inr put_ok)\<rparr>"

text \<open>A provider that answers 200 with a body that is not a JSON document.\<close>

definition env_bad_json :: env where
  "env_bad_json =
     \<lparr>isprintable = cpython_3_11_isprintable,
      http_backend = (\<lambda>cs rq.
        Inr \<lparr>status_code = 200, reason = ''OK'', response_url = url rq,
             json_result = Inl decode_error\<rparr>),
      s3_backend = (\<lambda>cs args. Inr put_ok)\<rparr>"

text \<open>A provider that refuses the connection and a store that denies access.\<close>

definition env_all_fail :: env where
  "env_all_fail =
     \<lparr>isprintable = cpython_3_11_isprintable,
      http_backend = (\<lambda>cs rq. Inl connection_refused),
      s3_backend = (\<lambda>cs args. Inl access_denied)\<rparr>"

text \<open>
  A provider that answers 404 for the details and 200 with a body that does not decode for
  the repositories.
\<close>

definition env_repos_undecodable :: env where
  "env_repos_undecodable =
     \<lparr>isprintable = cpython_3_11_isprintable,
      http_backend = (\<lambda>cs rq.
        if url rq = ''https://api.example.com/users/octocat/repos''
        then Inr \<lparr>status_code = 200, reason = ''OK'', response_url = url rq,
                  json_result = Inl decode_error\<rparr>
        else Inr \<lparr>status_code = 404, reason = ''Not Found'', response_url = url rq,
                  json_result = Inr (PyDict [(''message'', PyStr ''Not Found'')])\<rparr>),
      s3_backend = (\<lambda>cs args. Inr put_ok)\<rparr>"

text \<open>
  A store that fails with an exception that is neither a \<^verbatim>\<open>BotoCoreError\<close> nor a
  \<^verbatim>\<open>ClientError\<close>, as a stand-in for the store may.
\<close>

definition env_store_breaks :: env where
  "env_store_breaks =
     \<lparr>isprintable = cpython_3_11_isprintable,
      http_backend = (\<lambda>cs rq. Inl connection_refused),
      s3_backend = (\<lambda>cs args. Inl storage_down)\<rparr>"

text \<open>
  A list holding one string with characters of every kind: a no-break space (U+00A0), a
  zero-width space (U+200B), an ideographic space (U+3000), an accented letter (U+00E9), an
  emoji (U+1F600), a tag character (U+E0001), DEL, and a surrogate (U+D800).
\<close>

definition odd_text :: pyval where
  "odd_text =
     PyList [PyStr [CHR ''a'', CHR 0xC2, CHR 0xA0, CHR ''b'', CHR 0xE2, CHR 0x80, CHR 0x8B,
                    CHR 0xE3, CHR 0x80, CHR 0x80, CHR 0xC3, CHR 0xA9,
                    CHR 0xF0, CHR 0x9F, CHR 0x98, CHR 0x80, CHR 0xF3, CHR 0xA0, CHR 0x80, CHR 0x81,
                    CHR 0x7F, CHR 0xED, CHR 0xA0, CHR 0x80]]"

text \<open>The records of one level in a log, and the keys of the uploads among some calls.\<close>

definition records_at :: "level \<Rightarrow> log_record list \<Rightarrow> log_record list" where
  "records_at lv rs = filter (\<lambda>r. record_level r = lv) rs"

fun put_keys :: "call list \<Rightarrow> string list" where
  "put_keys [] = []"
| "put_keys (HttpCall rq # cs) = put_keys cs"
| "put_keys (PutObject args # cs) = Key args # put_keys cs"

section \<open>The API client: what a request does\<close>

lemma github_api_logger_level [simp]: "logger_level github_api_logger = DEBUG"
  by (simp add: github_api_logger_def log_this_init_def)

lemma s3_uploader_logger_level [simp]: "logger_level s3_uploader_logger = DEBUG"
  by (simp add: s3_uploader_logger_def log_this_init_def)

lemma info_debug_logger:
  "logger_level lg = DEBUG \<Longrightarrow> info lg msg w = (Inr (), w\<lparr>logged := logged w @ [makeRecord lg INFO msg]\<rparr>)"
  by (simp add: info_def log_call_def)

lemma error_debug_logger:
  "logger_level lg = DEBUG \<Longrightarrow> error lg msg w = (Inr (), w\<lparr>logged := logged w @ [makeRecord lg ERROR msg]\<rparr>)"
  by (simp add: error_def log_call_def)

lemma send_http_request_cases:
  "send_http_request env self u m ps w =
     (case http_backend env (calls w)
             \<lparr>http_method = m, url = u, request_headers = headers self, params = ps\<rparr> of
        Inl e \<Rightarrow>
          if exn_class_of e = RequestException
          then (Inr None,
                w\<lparr>logged := logged w @
                     [makeRecord github_api_logger ERROR (''Error during request: '' @ exn_str e)],
                  calls := calls w @ [HttpCall \<lparr>http_method = m, url = u,
                     request_headers = headers self, params = ps\<rparr>]\<rparr>)
          else (Inl e,
                w\<lparr>calls := calls w @ [HttpCall \<lparr>http_method = m, url = u,
                     request_headers = headers self, params = ps\<rparr>]\<rparr>)
      | Inr r \<Rightarrow>
          (case http_error_msg r of
             Some msg \<Rightarrow>
               (Inr None,
                w\<lparr>logged := logged w @
                     [makeRecord github_api_logger ERROR (''Error during request: '' @ msg)],
                  calls := calls w @ [HttpCall \<lparr>http_method = m, url = u,
                     request_headers = headers self, params = ps\<rparr>]\<rparr>)
           | None \<Rightarrow>
               (Inr (Some r),
                w\<lparr>logged := logged w @ [makeRecord github_api_logger INFO ''Request successful''],
                  calls := calls w @ [HttpCall \<lparr>http_method = m, url = u,
                     request_headers = headers self, params = ps\<rparr>]\<rparr>)))"
  by (simp add: send_http_request_def py_try_def py_bind_def requests_request_def
      raise_for_status_def py_raise_def py_return_def handle_request_error_def
      info_debug_logger error_debug_logger
      split: sum.splits option.splits)


lemma make_request_cases:
  "make_request env self endpoint m ps w =
     (case http_backend env (calls w)
             \<lparr>http_method = m, url = base_url self @ endpoint,
                request_headers = headers self, params = ps\<rparr> of
        Inl e \<Rightarrow>
          if exn_class_of e = RequestException
          then (Inr PyNone,
                w\<lparr>logged := logged w @
                     [makeRecord github_api_logger INFO
                        (''Making a '' @ m @ '' request to '' @ base_url self @ endpoint),
                      makeRecord github_api_logger ERROR (''Error during request: '' @ exn_str e)],
                  calls := calls w @ [HttpCall \<lparr>http_method = m, url = base_url self @ endpoint,
                     request_headers = headers self, params = ps\<rparr>]\<rparr>)
          else (Inl e,
                w\<lparr>logged := logged w @
                     [makeRecord github_api_logger INFO
                        (''Making a '' @ m @ '' request to '' @ base_url self @ endpoint)],
                  calls := calls w @ [HttpCall \<lparr>http_method = m, url = base_url self @ endpoint,
                     request_headers = headers self, params = ps\<rparr>]\<rparr>)
      | Inr r \<Rightarrow>
          (case http_error_msg r of
             Some msg \<Rightarrow>
               (Inr PyNone,
                w\<lparr>logged := logged w @
                     [makeRecord github_api_logger INFO
                        (''Making a '' @ m @ '' request to '' @ base_url self @ endpoint),
                      makeRecord github_api_logger ERROR (''Error during request: '' @ msg)],
                  calls := calls w @ [HttpCall \<lparr>http_method = m, url = base_url self @ endpoint,
                     request_headers = headers self, params = ps\<rparr>]\<rparr>)
           | None \<Rightarrow>
               (case json_result r of Inl e \<Rightarrow> Inl e | Inr v \<Rightarrow> Inr v,
                w\<lparr>logged := logged w @
                     [makeRecord github_api_logger INFO
                        (''Making a '' @ m @ '' request to '' @ base_url self @ endpoint),
                      makeRecord github_api_logger INFO ''Request successful''],
                  calls := calls w @ [HttpCall \<lparr>http_method = m, url = base_url self @ endpoint,
                     request_headers = headers self, params = ps\<rparr>]\<rparr>)))"
  by (simp add: make_request_def Let_def py_bind_def info_debug_logger send_http_request_cases
      json_def ok_def py_return_def py_raise_def
      split: sum.splits option.splits)

lemma http_error_msg_range:
  "400 \<le> status_code r \<Longrightarrow> status_code r < 600 \<Longrightarrow>
   http_error_msg r =
     Some (show_int (status_code r) @
           (if status_code r < 500 then '' Client Error: '' else '' Server Error: '') @
           reason r @ '' for url: '' @ response_url r)"
  by (simp add: http_error_msg_def)

text \<open>Every other status passes \<^verbatim>\<open>raise_for_status\<close>.\<close>

lemma http_error_msg_none:
  "status_code r < 400 \<or> 600 \<le> status_code r \<Longrightarrow> http_error_msg r = None"
  by (auto simp add: http_error_msg_def)

lemma make_request_calls:
  "calls (snd (make_request env self endpoint m ps w)) =
     calls w @ [HttpCall \<lparr>http_method = m, url = base_url self @ endpoint,
                          request_headers = headers self, params = ps\<rparr>]"
  by (simp add: make_request_cases split: sum.splits option.splits)

text \<open>
  C1, as amended. When \<^verbatim>\<open>requests.request\<close> raises a \<^verbatim>\<open>RequestException\<close> (a failure of the
  transport), or answers with a status from 400 to 599, \<open>make_request\<close> does not raise: it
  returns \<^verbatim>\<open>None\<close>, has made the one call, and has written its line about the request and
  exactly one record at level ERROR, which holds the detail of the failure (the text of the
  exception, or the message that \<^verbatim>\<open>raise_for_status\<close> builds from the status, the reason and
  the URL).
\<close>

theorem make_request_failure_returns_absent:
  "(http_backend env (calls w)
      \<lparr>http_method = m, url = base_url self @ endpoint,
         request_headers = headers self, params = ps\<rparr> = Inl e
    \<and> isinstance e RequestException \<longrightarrow>
    make_request env self endpoint m ps w =
      (Inr PyNone,
       w\<lparr>logged := logged w @
            [makeRecord github_api_logger INFO
               (''Making a '' @ m @ '' request to '' @ base_url self @ endpoint),
             makeRecord github_api_logger ERROR (''Error during request: '' @ exn_str e)],
         calls := calls w @ [HttpCall \<lparr>http_method = m, url = base_url self @ endpoint,
            request_headers = headers self, params = ps\<rparr>]\<rparr>))
   \<and> (http_backend env (calls w)
      \<lparr>http_method = m, url = base_url self @ endpoint,
         request_headers = headers self, params = ps\<rparr> = Inr r
    \<and> 400 \<le> status_code r \<and> status_code r < 600 \<longrightarrow>
    make_request env self endpoint m ps w =
      (Inr PyNone,
       w\<lparr>logged := logged w @
            [makeRecord github_api_logger INFO
               (''Making a '' @ m @ '' request to '' @ base_url self @ endpoint),
             makeRecord github_api_logger ERROR
               (''Error during request: '' @ show_int (status_code r) @
                (if status_code r < 500 then '' Client Error: '' else '' Server Error: '') @
                reason r @ '' for url: '' @ response_url r)],
         calls := calls w @ [HttpCall \<lparr>http_method = m, url = base_url self @ endpoint,
            request_headers = headers self, params = ps\<rparr>]\<rparr>))"
  by (simp add: make_request_cases http_error_msg_range)

text \<open>
  The two cases at work: a 404 answer and a refused connection.
\<close>

theorem make_request_failure_returns_absent_witness:
  "make_request env_not_found example_api ''users/nobody'' ''GET'' None empty_world =
     (Inr PyNone,
      \<lparr>logged =
         [makeRecord github_api_logger INFO
            ''Making a GET request to https://api.example.com/users/nobody'',
          makeRecord github_api_logger ERROR
            ''Error during request: 404 Client Error: Not Found for url: https://api.example.com/users/nobody''],
       calls = [HttpCall \<lparr>http_method = ''GET'', url = ''https://api.example.com/users/nobody'',
          request_headers = [(''Authorization'', ''token abc'')], params = None\<rparr>],
       objects = (\<lambda>_. None)\<rparr>)
   \<and> make_request env_all_fail example_api ''users/octocat'' ''GET'' None empty_world =
     (Inr PyNone,
      \<lparr>logged =
         [makeRecord github_api_logger INFO
            ''Making a GET request to https://api.example.com/users/octocat'',
          makeRecord github_api_logger ERROR ''Error during request: Connection refused''],
       calls = [HttpCall \<lparr>http_method = ''GET'', url = ''https://api.example.com/users/octocat'',
          request_headers = [(''Authorization'', ''token abc'')], params = None\<rparr>],
       objects = (\<lambda>_. None)\<rparr>)"
  using make_request_failure_returns_absent
          [of env_not_found empty_world "''GET''" example_api "''users/nobody''" None
              connection_refused
              "\<lparr>status_code = 404, reason = ''Not Found'',
                response_url = ''https://api.example.com/users/nobody'',
                json_result = Inr (PyDict [(''message'', PyStr ''Not Found'')])\<rparr>"]
        make_request_failure_returns_absent
          [of env_all_fail empty_world "''GET''" example_api "''users/octocat''" None
              connection_refused
              "\<lparr>status_code = 404, reason = ''Not Found'',
                response_url = ''https://api.example.com/users/nobody'',
                json_result = Inr (PyDict [(''message'', PyStr ''Not Found'')])\<rparr>"]
  by (simp add: env_not_found_def env_all_fail_def example_api_def empty_world_def
      connection_refused_def show_int_def show_nat.simps)

text \<open>
  C1 as stated fails for a status outside 200 to 299 that \<^verbatim>\<open>raise_for_status\<close> lets pass: on
  a 304 answer with an empty body the request counts as successful, the decoding of the body
  raises to the caller of \<open>make_request\<close>, and no record at level ERROR is written.
\<close>

theorem make_request_not_modified_raises:
  "http_backend env_not_modified (calls empty_world)
     \<lparr>http_method = ''GET'', url = base_url example_api @ ''users/octocat'',
        request_headers = headers example_api, params = None\<rparr> =
     Inr \<lparr>status_code = 304, reason = ''Not Modified'',
          response_url = ''https://api.example.com/users/octocat'',
          json_result = Inl decode_error\<rparr>
   \<and> fst (make_request env_not_modified example_api ''users/octocat'' ''GET'' None empty_world) =
       Inl decode_error
   \<and> records_at ERROR
       (logged (snd (make_request env_not_modified example_api ''users/octocat'' ''GET'' None
          empty_world))) = []"
  by (simp add: make_request_cases env_not_modified_def example_api_def empty_world_def
      http_error_msg_def records_at_def makeRecord_def)

lemma get_user_details_eq:
  "get_user_details env self username w =
     make_request env self (''users/'' @ username) ''GET'' None
       (w\<lparr>logged := logged w @
            [makeRecord github_api_logger INFO (''Fetching user details for '' @ username)]\<rparr>)"
  by (simp add: get_user_details_def py_bind_def info_debug_logger)

lemma get_user_repos_eq:
  "get_user_repos env self username w =
     make_request env self (''users/'' @ username @ ''/repos'') ''GET'' None
       (w\<lparr>logged := logged w @
            [makeRecord github_api_logger INFO (''Fetching repositories for '' @ username)]\<rparr>)"
  by (simp add: get_user_repos_def py_bind_def info_debug_logger)

lemma get_user_details_calls:
  "calls (snd (get_user_details env self username w)) =
     calls w @ [HttpCall \<lparr>http_method = ''GET'', url = base_url self @ ''users/'' @ username,
                          request_headers = headers self, params = None\<rparr>]"
  by (simp add: get_user_details_eq make_request_calls)

lemma get_user_repos_calls:
  "calls (snd (get_user_repos env self username w)) =
     calls w @ [HttpCall \<lparr>http_method = ''GET'',
                          url = base_url self @ ''users/'' @ username @ ''/repos'',
                          request_headers = headers self, params = None\<rparr>]"
  by (simp add: get_user_repos_eq make_request_calls)

lemma GitHubAPI_init_result:
  "fst (GitHubAPI_init b token w) =
     Inr \<lparr>base_url = b, headers = [(''Authorization'', ''token '' @ token)]\<rparr>"
  by (simp add: GitHubAPI_init_def py_bind_def py_return_def info_debug_logger)

text \<open>
  C4. The client built from a base URL and a token holds the one header
  \<^verbatim>\<open>Authorization: token <token>\<close>. Every call of \<open>make_request\<close> makes exactly one request,
  to the base URL followed by the endpoint as they are, with the client's headers.
  \<open>get_user_details\<close> requests \<^verbatim>\<open>users/<username>\<close> and \<open>get_user_repos\<close> requests
  \<^verbatim>\<open>users/<username>/repos\<close>, with GET and no parameters, for every string given as the username.
\<close>

theorem request_url_and_authorization:
  "fst (GitHubAPI_init b token w0) =
     Inr \<lparr>base_url = b, headers = [(''Authorization'', ''token '' @ token)]\<rparr>
   \<and> calls (snd (make_request env self endpoint m ps w)) =
       calls w @ [HttpCall \<lparr>http_method = m, url = base_url self @ endpoint,
                            request_headers = headers self, params = ps\<rparr>]
   \<and> calls (snd (get_user_details env self username w)) =
       calls w @ [HttpCall \<lparr>http_method = ''GET'', url = base_url self @ ''users/'' @ username,
                            request_headers = headers self, params = None\<rparr>]
   \<and> calls (snd (get_user_repos env self username w)) =
       calls w @ [HttpCall \<lparr>http_method = ''GET'',
                            url = base_url self @ ''users/'' @ username @ ''/repos'',
                            request_headers = headers self, params = None\<rparr>]"
  by (simp add: GitHubAPI_init_result make_request_calls get_user_details_calls
      get_user_repos_calls)

text \<open>
  No slash is added or removed: a base URL without a final slash runs into the endpoint, and
  an endpoint with a leading slash keeps it. A username with a space and dots goes into the
  path as it is.
\<close>

theorem request_url_and_authorization_witness:
  "fst (GitHubAPI_init ''https://api.example.com'' ''abc'' empty_world) =
     Inr \<lparr>base_url = ''https://api.example.com'', headers = [(''Authorization'', ''token abc'')]\<rparr>
   \<and> calls (snd (make_request env_octocat
         \<lparr>base_url = ''https://api.example.com'', headers = [(''Authorization'', ''token abc'')]\<rparr>
         ''/users/octocat'' ''GET'' None empty_world)) =
       [HttpCall \<lparr>http_method = ''GET'', url = ''https://api.example.com/users/octocat'',
                  request_headers = [(''Authorization'', ''token abc'')], params = None\<rparr>]
   \<and> calls (snd (get_user_details env_octocat
         \<lparr>base_url = ''https://api.example.com'', headers = [(''Authorization'', ''token abc'')]\<rparr>
         ''octo cat/../x'' empty_world)) =
       [HttpCall \<lparr>http_method = ''GET'', url = ''https://api.example.comusers/octo cat/../x'',
                  request_headers = [(''Authorization'', ''token abc'')], params = None\<rparr>]
   \<and> calls (snd (get_user_repos env_octocat example_api ''octocat'' empty_world)) =
       [HttpCall \<lparr>http_method = ''GET'', url = ''https://api.example.com/users/octocat/repos'',
                  request_headers = [(''Authorization'', ''token abc'')], params = None\<rparr>]"
  using request_url_and_authorization
          [of "''https://api.example.com''" "''abc''" empty_world env_octocat
              "\<lparr>base_url = ''https://api.example.com'',
                headers = [(''Authorization'', ''token abc'')]\<rparr>"
              "''/users/octocat''" "''GET''" None empty_world "''octo cat/../x''"]
        request_url_and_authorization
          [of "''https://api.example.com''" "''abc''" empty_world env_octocat
              example_api "''/users/octocat''" "''GET''" None empty_world "''octocat''"]
  by (simp add: empty_world_def example_api_def)

text \<open>
  C8. When the provider answers the request of \<open>get_user_details\<close> (of \<open>get_user_repos\<close>) with
  status 200 and a body that decodes to a value, that value is returned as it is.
\<close>

theorem fetch_returns_decoded_body:
  "(http_backend env (calls w)
      \<lparr>http_method = ''GET'', url = base_url self @ ''users/'' @ username,
         request_headers = headers self, params = None\<rparr> = Inr r
    \<and> status_code r = 200 \<and> json_result r = Inr v \<longrightarrow>
    fst (get_user_details env self username w) = Inr v)
   \<and> (http_backend env (calls w)
      \<lparr>http_method = ''GET'', url = base_url self @ ''users/'' @ username @ ''/repos'',
         request_headers = headers self, params = None\<rparr> = Inr r'
    \<and> status_code r' = 200 \<and> json_result r' = Inr v' \<longrightarrow>
    fst (get_user_repos env self username w) = Inr v')"
  by (simp add: get_user_details_eq get_user_repos_eq make_request_cases http_error_msg_def)

text \<open>
  The provider that knows octocat: the mapping and the list come back unchanged.
\<close>

theorem fetch_returns_decoded_body_witness:
  "fst (get_user_details env_octocat example_api ''octocat'' empty_world) =
     Inr (PyDict [(''login'', PyStr ''octocat''), (''id'', PyInt 1)])
   \<and> fst (get_user_repos env_octocat example_api ''octocat'' empty_world) =
     Inr (PyList [PyDict [(''name'', PyStr ''Hello-World''), (''fork'', PyBool False)]])"
  using fetch_returns_decoded_body
          [of env_octocat empty_world example_api "''octocat''"
              "\<lparr>status_code = 200, reason = ''OK'',
                response_url = ''https://api.example.com/users/octocat'',
                json_result = Inr octocat_details\<rparr>"
              octocat_details
              "\<lparr>status_code = 200, reason = ''OK'',
                response_url = ''https://api.example.com/users/octocat/repos'',
                json_result = Inr octocat_repos\<rparr>"
              octocat_repos]
  by (simp add: env_octocat_def example_api_def empty_world_def octocat_details_def
      octocat_repos_def)

text \<open>
  C9. When the provider answers with a status from 200 to 299 and the body is not a JSON
  document, \<open>make_request\<close> raises the error of \<^verbatim>\<open>response.json()\<close> to its caller, whatever the
  class of that error: the request itself has passed (the line about its success is logged,
  no record at level ERROR is written) and the decoding runs after the \<^verbatim>\<open>try\<close> block of
  \<open>send_http_request\<close> has been left.
\<close>

theorem make_request_decode_error_propagates:
  "http_backend env (calls w)
      \<lparr>http_method = m, url = base_url self @ endpoint,
         request_headers = headers self, params = ps\<rparr> = Inr r
    \<and> 200 \<le> status_code r \<and> status_code r < 300 \<and> json_result r = Inl e \<longrightarrow>
    make_request env self endpoint m ps w =
      (Inl e,
       w\<lparr>logged := logged w @
            [makeRecord github_api_logger INFO
               (''Making a '' @ m @ '' request to '' @ base_url self @ endpoint),
             makeRecord github_api_logger INFO ''Request successful''],
         calls := calls w @ [HttpCall \<lparr>http_method = m, url = base_url self @ endpoint,
            request_headers = headers self, params = ps\<rparr>]\<rparr>)"
  by (simp add: make_request_cases http_error_msg_def)

text \<open>
  A 200 answer whose body does not decode: the error reaches the caller even though it is a
  \<^verbatim>\<open>RequestException\<close>.
\<close>

theorem make_request_decode_error_propagates_witness:
  "make_request env_bad_json example_api ''users/octocat'' ''GET'' None empty_world =
     (Inl (Exn RequestException ''Expecting value: line 1 column 1 (char 0)''),
      \<lparr>logged =
         [makeRecord github_api_logger INFO
            ''Making a GET request to https://api.example.com/users/octocat'',
          makeRecord github_api_logger INFO ''Request successful''],
       calls = [HttpCall \<lparr>http_method = ''GET'', url = ''https://api.example.com/users/octocat'',
          request_headers = [(''Authorization'', ''token abc'')], params = None\<rparr>],
       objects = (\<lambda>_. None)\<rparr>)"
  using make_request_decode_error_propagates
          [of env_bad_json empty_world "''GET''" example_api "''users/octocat''" None
              "\<lparr>status_code = 200, reason = ''OK'',
                response_url = ''https://api.example.com/users/octocat'',
                json_result = Inl decode_error\<rparr>"
              decode_error]
  by (simp add: env_bad_json_def example_api_def empty_world_def decode_error_def)

section \<open>The storage uploader: what an upload does\<close>

lemma upload_data_to_s3_cases:
  "upload_data_to_s3 env self data k w =
     (case s3_backend env (calls w)
             \<lparr>Body = py_str (isprintable env) data, Bucket = bucket_name self, Key = k\<rparr> of
        Inr r \<Rightarrow>
          (Inr r,
           w\<lparr>logged := logged w @
                [makeRecord s3_uploader_logger INFO
                   (''Data uploaded to '' @ bucket_name self @ ''/'' @ k)],
             calls := calls w @
                [PutObject \<lparr>Body = py_str (isprintable env) data, Bucket = bucket_name self, Key = k\<rparr>],
             objects := (objects w)((bucket_name self, k) \<mapsto> py_str (isprintable env) data)\<rparr>)
      | Inl e \<Rightarrow>
          if exn_class_of e = BotoCoreError \<or> exn_class_of e = ClientError
          then (Inr PyNone,
                w\<lparr>logged := logged w @
                     [makeRecord s3_uploader_logger ERROR
                        (''Error uploading data to S3: '' @ exn_str e)],
                  calls := calls w @
                     [PutObject \<lparr>Body = py_str (isprintable env) data, Bucket = bucket_name self, Key = k\<rparr>]\<rparr>)
          else (Inl e,
                w\<lparr>calls := calls w @
                     [PutObject \<lparr>Body = py_str (isprintable env) data, Bucket = bucket_name self, Key = k\<rparr>]\<rparr>))"
  by (simp add: upload_data_to_s3_def py_try_def py_bind_def put_object_def Let_def
      py_return_def log_s3_upload_error_def info_debug_logger error_debug_logger
      split: sum.splits)

lemma upload_data_to_s3_calls:
  "calls (snd (upload_data_to_s3 env self data k w)) =
     calls w @ [PutObject \<lparr>Body = py_str (isprintable env) data, Bucket = bucket_name self, Key = k\<rparr>]"
  by (auto simp add: upload_data_to_s3_cases split: sum.splits)

lemma upload_data_to_s3_stored:
  "s3_backend env (calls w)
     \<lparr>Body = py_str (isprintable env) data, Bucket = bucket_name self, Key = k\<rparr> = Inr r
   \<Longrightarrow> objects (snd (upload_data_to_s3 env self data k w)) (bucket_name self, k) =
         Some (py_str (isprintable env) data)"
  by (simp add: upload_data_to_s3_cases)

text \<open>
  C2, as amended. For every value and key, \<open>upload_data_to_s3\<close> makes exactly one
  \<^verbatim>\<open>put_object\<close> call, whose body is \<^verbatim>\<open>str(data)\<close>, whose bucket is the uploader's and whose key
  is the given one. When the store accepts the call, the answer of the store is returned and
  the object at that bucket and key is that text. When the store raises a \<^verbatim>\<open>BotoCoreError\<close>
  or a \<^verbatim>\<open>ClientError\<close>, nothing is raised: the result is \<^verbatim>\<open>None\<close> and one record at level ERROR
  holds the text of the error. An exception of any other class that \<^verbatim>\<open>put_object\<close> raises is
  not caught: it reaches the caller and nothing is logged.
\<close>

theorem upload_data_to_s3_contract:
  "calls (snd (upload_data_to_s3 env self data k w)) =
     calls w @
     [PutObject \<lparr>Body = py_str (isprintable env) data, Bucket = bucket_name self, Key = k\<rparr>]
   \<and> (s3_backend env (calls w)
        \<lparr>Body = py_str (isprintable env) data, Bucket = bucket_name self, Key = k\<rparr> = Inr r
      \<longrightarrow>
      upload_data_to_s3 env self data k w =
        (Inr r,
         w\<lparr>logged := logged w @
              [makeRecord s3_uploader_logger INFO
                 (''Data uploaded to '' @ bucket_name self @ ''/'' @ k)],
           calls := calls w @
              [PutObject \<lparr>Body = py_str (isprintable env) data, Bucket = bucket_name self,
                          Key = k\<rparr>],
           objects := (objects w)((bucket_name self, k) \<mapsto> py_str (isprintable env) data)\<rparr>))
   \<and> (s3_backend env (calls w)
        \<lparr>Body = py_str (isprintable env) data, Bucket = bucket_name self, Key = k\<rparr> = Inl e
      \<and> (isinstance e BotoCoreError \<or> isinstance e ClientError) \<longrightarrow>
      upload_data_to_s3 env self data k w =
        (Inr PyNone,
         w\<lparr>logged := logged w @
              [makeRecord s3_uploader_logger ERROR
                 (''Error uploading data to S3: '' @ exn_str e)],
           calls := calls w @
              [PutObject \<lparr>Body = py_str (isprintable env) data, Bucket = bucket_name self,
                          Key = k\<rparr>]\<rparr>))
   \<and> (s3_backend env (calls w)
        \<lparr>Body = py_str (isprintable env) data, Bucket = bucket_name self, Key = k\<rparr> = Inl e'
      \<and> \<not> isinstance e' BotoCoreError \<and> \<not> isinstance e' ClientError \<longrightarrow>
      upload_data_to_s3 env self data k w =
        (Inl e',
         w\<lparr>calls := calls w @
              [PutObject \<lparr>Body = py_str (isprintable env) data, Bucket = bucket_name self,
                          Key = k\<rparr>]\<rparr>))"
proof -
  have failure: "exn_class_of e = BotoCoreError \<or> exn_class_of e = ClientError"
    if "isinstance e BotoCoreError \<or> isinstance e ClientError"
    using that by simp
  have other: "exn_class_of e' \<noteq> BotoCoreError \<and> exn_class_of e' \<noteq> ClientError"
    if "\<not> isinstance e' BotoCoreError \<and> \<not> isinstance e' ClientError"
    using that by simp
  show ?thesis
    using failure other
    by (simp add: upload_data_to_s3_calls) (simp add: upload_data_to_s3_cases)
qed

text \<open>
  The text of the dictionary of octocat, whatever the interpreter holds printable, and the
  text of the list with the odd string under the database of CPython 3.11: the no-break
  space, the zero-width space, the ideographic space, the tag character, DEL and the
  surrogate are escaped, the accented letter and the emoji are copied.
\<close>

lemma py_str_octocat_details:
  "py_str printable octocat_details =
     ''{'' @ [CHR 0x27] @ ''login'' @ [CHR 0x27] @ '': '' @ [CHR 0x27] @ ''octocat'' @ [CHR 0x27] @
     '', '' @ [CHR 0x27] @ ''id'' @ [CHR 0x27] @ '': 1}''"
  by (simp add: octocat_details_def py_str_def str_repr_def quote_char_def escape_char_def
      is_continuation_def following_def show_int_def show_nat.simps Let_def)

lemma cpython_3_11_isprintable_examples:
  "\<not> cpython_3_11_isprintable 160 \<and> \<not> cpython_3_11_isprintable 8203
   \<and> \<not> cpython_3_11_isprintable 12288 \<and> cpython_3_11_isprintable 233
   \<and> cpython_3_11_isprintable 128512 \<and> \<not> cpython_3_11_isprintable 917505
   \<and> \<not> cpython_3_11_isprintable 55296"
  by (simp add: cpython_3_11_isprintable_def cpython_3_11_nonprintable_def)

lemma py_str_odd_text:
  "py_str cpython_3_11_isprintable odd_text =
     ''['' @ [CHR 0x27] @ ''a'' @ [CHR 0x5C] @ ''xa0b'' @ [CHR 0x5C] @ ''u200b'' @
     [CHR 0x5C] @ ''u3000'' @ [CHR 0xC3, CHR 0xA9, CHR 0xF0, CHR 0x9F, CHR 0x98, CHR 0x80] @
     [CHR 0x5C] @ ''U000e0001'' @ [CHR 0x5C] @ ''x7f'' @ [CHR 0x5C] @ ''ud800'' @
     [CHR 0x27] @ '']''"
  using cpython_3_11_isprintable_examples
  by (simp add: odd_text_def py_str_def str_repr_def quote_char_def escape_char_def
      is_continuation_def following_def hex2_def hex4_def hex8_def Let_def)

text \<open>
  An accepted upload, a refused one, and one that fails with another exception.
\<close>

theorem upload_data_to_s3_contract_witness:
  "upload_data_to_s3 env_octocat example_uploader octocat_details ''octocat_details.json''
     empty_world =
     (Inr put_ok,
      \<lparr>logged = [makeRecord s3_uploader_logger INFO
                   ''Data uploaded to github-data/octocat_details.json''],
       calls = [PutObject \<lparr>Body = py_str (isprintable env_octocat) octocat_details,
                            Bucket = ''github-data'', Key = ''octocat_details.json''\<rparr>],
       objects = (\<lambda>_. None)((''github-data'', ''octocat_details.json'') \<mapsto>
                   py_str (isprintable env_octocat) octocat_details)\<rparr>)
   \<and> upload_data_to_s3 env_all_fail example_uploader octocat_details ''octocat_details.json''
     empty_world =
     (Inr PyNone,
      \<lparr>logged = [makeRecord s3_uploader_logger ERROR
                   ''Error uploading data to S3: An error occurred (AccessDenied) when calling the PutObject operation''],
       calls = [PutObject \<lparr>Body = py_str (isprintable env_all_fail) octocat_details,
                            Bucket = ''github-data'', Key = ''octocat_details.json''\<rparr>],
       objects = (\<lambda>_. None)\<rparr>)
   \<and> upload_data_to_s3 env_store_breaks example_uploader octocat_details
     ''octocat_details.json'' empty_world =
     (Inl storage_down,
      \<lparr>logged = [],
       calls = [PutObject \<lparr>Body = py_str (isprintable env_store_breaks) octocat_details,
                            Bucket = ''github-data'', Key = ''octocat_details.json''\<rparr>],
       objects = (\<lambda>_. None)\<rparr>)"
  using upload_data_to_s3_contract
          [of env_octocat example_uploader octocat_details "''octocat_details.json''"
              empty_world put_ok access_denied storage_down]
        upload_data_to_s3_contract
          [of env_all_fail example_uploader octocat_details "''octocat_details.json''"
              empty_world put_ok access_denied storage_down]
        upload_data_to_s3_contract
          [of env_store_breaks example_uploader octocat_details "''octocat_details.json''"
              empty_world put_ok access_denied storage_down]
  by (simp add: env_octocat_def env_all_fail_def env_store_breaks_def example_uploader_def
      empty_world_def access_denied_def storage_down_def)

text \<open>
  C2 as stated fails for a failure of the store that is neither a \<^verbatim>\<open>BotoCoreError\<close> nor a
  \<^verbatim>\<open>ClientError\<close>: the exception reaches the caller of \<open>upload_data_to_s3\<close> and no record at
  level ERROR is written.
\<close>

theorem upload_data_to_s3_other_failure_escapes:
  "s3_backend env_store_breaks (calls empty_world)
     \<lparr>Body = py_str (isprintable env_store_breaks) octocat_details,
        Bucket = bucket_name example_uploader, Key = ''octocat_details.json''\<rparr> =
     Inl storage_down
   \<and> fst (upload_data_to_s3 env_store_breaks example_uploader octocat_details
        ''octocat_details.json'' empty_world) = Inl storage_down
   \<and> records_at ERROR
       (logged (snd (upload_data_to_s3 env_store_breaks example_uploader octocat_details
          ''octocat_details.json'' empty_world))) = []"
  by (simp add: upload_data_to_s3_cases env_store_breaks_def storage_down_def empty_world_def
      records_at_def)

lemma json_text_octocat_details: "json_text (py_str printable octocat_details) = Reject"
  by (simp add: py_str_octocat_details json_text_def is_ws_def)

text \<open>
  C6. After an accepted upload of any value, reading the store at the bucket and key gives
  exactly \<^verbatim>\<open>str(data)\<close>. That text need not be a JSON document: for the dictionary with the
  keys login and id it is written with single quotes, and the grammar of JSON refuses it.
\<close>

theorem stored_body_is_str_of_data:
  "(s3_backend env (calls w)
      \<lparr>Body = py_str (isprintable env) data, Bucket = bucket_name self, Key = k\<rparr> = Inr r
      \<longrightarrow>
      objects (snd (upload_data_to_s3 env self data k w)) (bucket_name self, k) =
        Some (py_str (isprintable env) data))
   \<and> py_str printable octocat_details =
       ''{'' @ [CHR 0x27] @ ''login'' @ [CHR 0x27] @ '': '' @ [CHR 0x27] @ ''octocat'' @
       [CHR 0x27] @ '', '' @ [CHR 0x27] @ ''id'' @ [CHR 0x27] @ '': 1}''
   \<and> json_text (py_str printable octocat_details) = Reject
   \<and> \<not> json_valid (py_str printable octocat_details)"
proof -
  have "\<not> json_valid (py_str printable octocat_details)"
    by (simp add: json_valid_def json_text_octocat_details)
  then show ?thesis
    using upload_data_to_s3_stored [of env w data self k r] py_str_octocat_details
      json_text_octocat_details
    by blast
qed

text \<open>
  The round trip of the dictionary, and of the list with the odd string, through a store
  that accepts: what is read back is the text that \<^verbatim>\<open>str\<close> prints, escapes included.
\<close>

theorem stored_body_is_str_of_data_witness:
  "objects (snd (upload_data_to_s3 env_octocat example_uploader octocat_details
       ''octocat_details.json'' empty_world)) (''github-data'', ''octocat_details.json'') =
     Some (''{'' @ [CHR 0x27] @ ''login'' @ [CHR 0x27] @ '': '' @ [CHR 0x27] @ ''octocat'' @
       [CHR 0x27] @ '', '' @ [CHR 0x27] @ ''id'' @ [CHR 0x27] @ '': 1}'')
   \<and> objects (snd (upload_data_to_s3 env_octocat example_uploader odd_text
       ''odd.json'' empty_world)) (''github-data'', ''odd.json'') =
     Some (''['' @ [CHR 0x27] @ ''a'' @ [CHR 0x5C] @ ''xa0b'' @ [CHR 0x5C] @ ''u200b'' @
       [CHR 0x5C] @ ''u3000'' @ [CHR 0xC3, CHR 0xA9, CHR 0xF0, CHR 0x9F, CHR 0x98, CHR 0x80] @
       [CHR 0x5C] @ ''U000e0001'' @ [CHR 0x5C] @ ''x7f'' @ [CHR 0x5C] @ ''ud800'' @
       [CHR 0x27] @ '']'')"
  using stored_body_is_str_of_data
          [of env_octocat empty_world octocat_details example_uploader
              "''octocat_details.json''" put_ok cpython_3_11_isprintable]
        stored_body_is_str_of_data
          [of env_octocat empty_world odd_text example_uploader
              "''odd.json''" put_ok cpython_3_11_isprintable]
        py_str_odd_text
  by (simp add: env_octocat_def example_uploader_def py_str_octocat_details)

section \<open>The orchestrator: what a run does\<close>

lemma put_keys_append: "put_keys (xs @ ys) = put_keys xs @ put_keys ys"
  by (induction xs rule: put_keys.induct) simp_all

lemma handler_keeps_calls_and_objects:
  "calls (snd (upload_github_data_to_s3 env g api up u w)) =
     calls (snd (upload_sequence env g api up u w))
   \<and> objects (snd (upload_github_data_to_s3 env g api up u w)) =
     objects (snd (upload_sequence env g api up u w))"
  by (simp add: upload_github_data_to_s3_def py_try_def py_bind_def global_logger_def
      py_raise_def py_return_def error_def log_call_def
      split: prod.splits sum.splits option.splits)

lemma upload_sequence_returns:
  assumes "get_user_details env api u w = (Inr d, w1)"
    and "get_user_repos env api u w1 = (Inr r, w2)"
    and "upload_data_to_s3 env up d (u @ ''_details.json'') w2 = (Inr x, w3)"
    and "upload_data_to_s3 env up r (u @ ''_repos.json'') w3 = (Inr y, w4)"
  shows "upload_sequence env g api up u w =
     (case g of
        None \<Rightarrow> (Inl (NameError ''logger''), w4)
      | Some lg \<Rightarrow> (Inr PyNone, snd (info lg (success_line u) w4)))"
  using assms
  by (simp add: upload_sequence_def py_bind_def global_logger_def py_raise_def py_return_def
      info_def log_call_def split: option.splits)

text \<open>
  In the module run as the script the orchestrator never raises and returns \<^verbatim>\<open>None\<close>;
  imported under any other name it always raises \<^verbatim>\<open>NameError\<close>.
\<close>

lemma orchestrator_script_returns_None:
  "fst (upload_github_data_to_s3 env (main_logger ''__main__'') api up u w) = Inr PyNone"
  by (simp add: upload_github_data_to_s3_def upload_sequence_def py_try_def py_bind_def
      main_logger_def global_logger_def py_return_def error_def info_def log_call_def
      split: prod.splits sum.splits)

lemma orchestrator_import_raises:
  "name \<noteq> ''__main__'' \<Longrightarrow>
   fst (upload_github_data_to_s3 env (main_logger name) api up u w) = Inl (NameError ''logger'')"
  by (simp add: upload_github_data_to_s3_def upload_sequence_def py_try_def py_bind_def
      main_logger_def global_logger_def py_return_def py_raise_def
      split: prod.splits sum.splits)


lemma upload_sequence_after_fetches:
  assumes "get_user_details env api u w = (Inr d, w1)"
    and "get_user_repos env api u w1 = (Inr r, w2)"
  shows "calls (snd (upload_sequence env g api up u w)) =
     (case upload_data_to_s3 env up d (u @ ''_details.json'') w2 of
        (Inl e, w3) \<Rightarrow> calls w3
      | (Inr x, w3) \<Rightarrow> calls (snd (upload_data_to_s3 env up r (u @ ''_repos.json'') w3)))"
    and "objects (snd (upload_sequence env g api up u w)) =
     (case upload_data_to_s3 env up d (u @ ''_details.json'') w2 of
        (Inl e, w3) \<Rightarrow> objects w3
      | (Inr x, w3) \<Rightarrow> objects (snd (upload_data_to_s3 env up r (u @ ''_repos.json'') w3)))"
  using assms
  by (simp_all add: upload_sequence_def py_bind_def global_logger_def py_raise_def py_return_def
      info_def log_call_def split: prod.splits sum.splits option.splits)

lemma upload_sequence_calls:
  "calls (snd (upload_sequence env g api up u w)) =
     (case get_user_details env api u w of
        (Inl e, w1) \<Rightarrow> calls w1
      | (Inr d, w1) \<Rightarrow>
          (case get_user_repos env api u w1 of
             (Inl e, w2) \<Rightarrow> calls w2
           | (Inr r, w2) \<Rightarrow>
               (case upload_data_to_s3 env up d (u @ ''_details.json'') w2 of
                  (Inl e, w3) \<Rightarrow> calls w3
                | (Inr x, w3) \<Rightarrow>
                    calls (snd (upload_data_to_s3 env up r (u @ ''_repos.json'') w3)))))"
  by (simp add: upload_sequence_def py_bind_def global_logger_def py_raise_def py_return_def
      info_def log_call_def split: prod.splits sum.splits option.splits)

lemma details_upload_is_made:
  assumes "get_user_details env api u w = (Inr d, w1)"
    and "get_user_repos env api u w1 = (Inr r, w2)"
  shows "\<exists>rest. calls (snd (upload_github_data_to_s3 env g api up u w)) =
     calls w2 @ PutObject \<lparr>Body = py_str (isprintable env) d, Bucket = bucket_name up,
                           Key = u @ ''_details.json''\<rparr> # rest"
proof (cases "upload_data_to_s3 env up d (u @ ''_details.json'') w2")
  case (Pair res w3)
  have w3: "calls w3 = calls w2 @ [PutObject \<lparr>Body = py_str (isprintable env) d, Bucket = bucket_name up,
                                             Key = u @ ''_details.json''\<rparr>]"
    using upload_data_to_s3_calls [of env up d "u @ ''_details.json''" w2] Pair by simp
  show ?thesis
    using Pair w3
    by (cases res)
      (simp_all add: handler_keeps_calls_and_objects upload_sequence_after_fetches [OF assms]
        upload_data_to_s3_calls)
qed

lemma details_object_is_stored:
  assumes "get_user_details env api u w = (Inr d, w1)"
    and "get_user_repos env api u w1 = (Inr r, w2)"
    and "s3_backend env (calls w2)
           \<lparr>Body = py_str (isprintable env) d, Bucket = bucket_name up, Key = u @ ''_details.json''\<rparr> = Inr x"
  shows "objects (snd (upload_github_data_to_s3 env g api up u w))
           (bucket_name up, u @ ''_details.json'') = Some (py_str (isprintable env) d)"
  using assms(3)
  by (simp add: handler_keeps_calls_and_objects upload_sequence_after_fetches [OF assms(1,2)])
    (simp add: upload_data_to_s3_cases split: sum.splits)

lemma repos_upload_is_made:
  assumes "get_user_details env api u w = (Inr d, w1)"
    and "get_user_repos env api u w1 = (Inr r, w2)"
    and "upload_data_to_s3 env up d (u @ ''_details.json'') w2 = (Inr x, w3)"
  shows "calls (snd (upload_github_data_to_s3 env g api up u w)) =
     calls w3 @ [PutObject \<lparr>Body = py_str (isprintable env) r, Bucket = bucket_name up,
                             Key = u @ ''_repos.json''\<rparr>]"
  using assms(3)
  by (simp add: handler_keeps_calls_and_objects upload_sequence_after_fetches [OF assms(1,2)]
      upload_data_to_s3_calls)

lemma repos_object_is_stored:
  assumes "get_user_details env api u w = (Inr d, w1)"
    and "get_user_repos env api u w1 = (Inr r, w2)"
    and "upload_data_to_s3 env up d (u @ ''_details.json'') w2 = (Inr x, w3)"
    and "s3_backend env (calls w3)
           \<lparr>Body = py_str (isprintable env) r, Bucket = bucket_name up, Key = u @ ''_repos.json''\<rparr> = Inr y"
  shows "objects (snd (upload_github_data_to_s3 env g api up u w))
           (bucket_name up, u @ ''_repos.json'') = Some (py_str (isprintable env) r)"
  using assms(3,4)
  by (simp add: handler_keeps_calls_and_objects upload_sequence_after_fetches [OF assms(1,2)]
      upload_data_to_s3_stored)

lemma py_str_None: "py_str printable PyNone = ''None''"
  by (simp add: py_str_def)

text \<open>
  C5, as amended. The text of \<^verbatim>\<open>None\<close> is \<^verbatim>\<open>None\<close>. When the fetch of the details returns
  \<^verbatim>\<open>None\<close> and the fetch of the repositories returns (it does not raise), the orchestrator
  still makes the upload of the details, with the body \<^verbatim>\<open>None\<close>, and after a store that
  accepts it the object at the details key is that text. When the fetch of the repositories
  returns \<^verbatim>\<open>None\<close> and the upload of the details has returned, the upload of the repositories
  is made with the body \<^verbatim>\<open>None\<close> and stored likewise.
\<close>

theorem absent_fetch_is_uploaded_as_None:
  "py_str (isprintable env) PyNone = ''None''
   \<and> (get_user_details env api u w = (Inr PyNone, w1)
      \<and> get_user_repos env api u w1 = (Inr r, w2) \<longrightarrow>
      (\<exists>rest. calls (snd (upload_github_data_to_s3 env g api up u w)) =
         calls w2 @ PutObject \<lparr>Body = ''None'', Bucket = bucket_name up,
                               Key = u @ ''_details.json''\<rparr> # rest)
      \<and> (s3_backend env (calls w2)
            \<lparr>Body = ''None'', Bucket = bucket_name up, Key = u @ ''_details.json''\<rparr> = Inr x
          \<longrightarrow>
          objects (snd (upload_github_data_to_s3 env g api up u w))
            (bucket_name up, u @ ''_details.json'') = Some ''None''))
   \<and> (get_user_details env api u w = (Inr d, w1')
      \<and> get_user_repos env api u w1' = (Inr PyNone, w2')
      \<and> upload_data_to_s3 env up d (u @ ''_details.json'') w2' = (Inr x', w3) \<longrightarrow>
      calls (snd (upload_github_data_to_s3 env g api up u w)) =
        calls w3 @ [PutObject \<lparr>Body = ''None'', Bucket = bucket_name up,
                                Key = u @ ''_repos.json''\<rparr>]
      \<and> (s3_backend env (calls w3)
            \<lparr>Body = ''None'', Bucket = bucket_name up, Key = u @ ''_repos.json''\<rparr> = Inr y
          \<longrightarrow>
          objects (snd (upload_github_data_to_s3 env g api up u w))
            (bucket_name up, u @ ''_repos.json'') = Some ''None''))"
  using details_upload_is_made [of env api u w PyNone w1 r w2 g up]
    details_object_is_stored [of env api u w PyNone w1 r w2 up x g]
    repos_upload_is_made [of env api u w d w1' PyNone w2' up x' w3 g]
    repos_object_is_stored [of env api u w d w1' PyNone w2' up x' w3 y g]
  by (simp add: py_str_None)


lemmas run_defs =
  upload_github_data_to_s3_def upload_sequence_def py_try_def py_bind_def py_return_def
  py_raise_def global_logger_def main_logger_def get_user_details_eq get_user_repos_eq
  make_request_cases upload_data_to_s3_cases http_error_msg_def show_int_def show_nat.simps
  info_def error_def log_call_def log_this_init_def empty_world_def example_api_def
  example_uploader_def py_str_def

text \<open>
  A user the provider does not know: both fetches return \<^verbatim>\<open>None\<close>, both uploads are made
  and both objects hold the text \<^verbatim>\<open>None\<close>.
\<close>

theorem absent_fetch_is_uploaded_as_None_witness:
  "fst (get_user_details env_not_found example_api ''ghost'' empty_world) = Inr PyNone
   \<and> calls (snd (upload_github_data_to_s3 env_not_found (main_logger ''__main__'') example_api
        example_uploader ''ghost'' empty_world)) =
       [HttpCall \<lparr>http_method = ''GET'', url = ''https://api.example.com/users/ghost'',
                  request_headers = [(''Authorization'', ''token abc'')], params = None\<rparr>,
        HttpCall \<lparr>http_method = ''GET'', url = ''https://api.example.com/users/ghost/repos'',
                  request_headers = [(''Authorization'', ''token abc'')], params = None\<rparr>,
        PutObject \<lparr>Body = ''None'', Bucket = ''github-data'', Key = ''ghost_details.json''\<rparr>,
        PutObject \<lparr>Body = ''None'', Bucket = ''github-data'', Key = ''ghost_repos.json''\<rparr>]
   \<and> objects (snd (upload_github_data_to_s3 env_not_found (main_logger ''__main__'') example_api
        example_uploader ''ghost'' empty_world)) (''github-data'', ''ghost_details.json'') =
       Some ''None''
   \<and> objects (snd (upload_github_data_to_s3 env_not_found (main_logger ''__main__'') example_api
        example_uploader ''ghost'' empty_world)) (''github-data'', ''ghost_repos.json'') =
       Some ''None''"
  using absent_fetch_is_uploaded_as_None
    [where env = env_not_found and api = example_api and u = "''ghost''" and w = empty_world
       and up = example_uploader and g = "main_logger ''__main__''"
       and ?w1.0 = "snd (get_user_details env_not_found example_api ''ghost'' empty_world)"
       and r = PyNone
       and ?w2.0 = "snd (get_user_repos env_not_found example_api ''ghost''
             (snd (get_user_details env_not_found example_api ''ghost'' empty_world)))"
       and x = put_ok and d = PyNone
       and w1' = "snd (get_user_details env_not_found example_api ''ghost'' empty_world)"
       and w2' = "snd (get_user_repos env_not_found example_api ''ghost''
             (snd (get_user_details env_not_found example_api ''ghost'' empty_world)))"
       and x' = put_ok
       and ?w3.0 = "snd (upload_data_to_s3 env_not_found example_uploader PyNone
             ''ghost_details.json''
             (snd (get_user_repos env_not_found example_api ''ghost''
               (snd (get_user_details env_not_found example_api ''ghost'' empty_world)))))"
       and y = put_ok]
  by (simp add: run_defs env_not_found_def)

text \<open>
  C5 as stated fails when a step before the upload raises: the provider answers 404 for the
  details, so their fetch returns \<^verbatim>\<open>None\<close>, and 200 with a body that does not decode for
  the repositories, so their fetch raises. The sequence ends there: no upload is made and
  nothing is stored under the details key.
\<close>

theorem absent_fetch_not_uploaded_when_next_fetch_raises:
  "fst (get_user_details env_repos_undecodable example_api ''octocat'' empty_world) = Inr PyNone
   \<and> fst (upload_github_data_to_s3 env_repos_undecodable (main_logger ''__main__'') example_api
        example_uploader ''octocat'' empty_world) = Inr PyNone
   \<and> put_keys (calls (snd (upload_github_data_to_s3 env_repos_undecodable
        (main_logger ''__main__'') example_api example_uploader ''octocat'' empty_world))) = []
   \<and> objects (snd (upload_github_data_to_s3 env_repos_undecodable (main_logger ''__main__'')
        example_api example_uploader ''octocat'' empty_world))
        (''github-data'', ''octocat_details.json'') = None"
  by (simp add: run_defs env_repos_undecodable_def)

text \<open>
  C7. When both fetches and the first upload return, the orchestrator makes exactly two
  uploads after the two requests: the details under the username followed by
  \<^verbatim>\<open>_details.json\<close>, then the repositories under the username followed by \<^verbatim>\<open>_repos.json\<close>. In
  every run, the keys of the uploads it makes are an initial part of that list of two keys.
\<close>

theorem upload_keys_are_derived_from_username:
  "(get_user_details env api u w = (Inr d, w1)
    \<and> get_user_repos env api u w1 = (Inr r, w2)
    \<and> upload_data_to_s3 env up d (u @ ''_details.json'') w2 = (Inr x, w3) \<longrightarrow>
    calls (snd (upload_github_data_to_s3 env g api up u w)) =
      calls w2 @
      [PutObject \<lparr>Body = py_str (isprintable env) d, Bucket = bucket_name up, Key = u @ ''_details.json''\<rparr>,
       PutObject \<lparr>Body = py_str (isprintable env) r, Bucket = bucket_name up, Key = u @ ''_repos.json''\<rparr>])
   \<and> (\<exists>n. put_keys (calls (snd (upload_github_data_to_s3 env g api up u w))) =
         put_keys (calls w) @ take n [u @ ''_details.json'', u @ ''_repos.json''])"
proof (intro conjI impI)
  assume h: "get_user_details env api u w = (Inr d, w1)
    \<and> get_user_repos env api u w1 = (Inr r, w2)
    \<and> upload_data_to_s3 env up d (u @ ''_details.json'') w2 = (Inr x, w3)"
  then have "calls w3 = calls w2 @
      [PutObject \<lparr>Body = py_str (isprintable env) d, Bucket = bucket_name up, Key = u @ ''_details.json''\<rparr>]"
    using upload_data_to_s3_calls [of env up d "u @ ''_details.json''" w2] by simp
  with h show "calls (snd (upload_github_data_to_s3 env g api up u w)) =
      calls w2 @
      [PutObject \<lparr>Body = py_str (isprintable env) d, Bucket = bucket_name up, Key = u @ ''_details.json''\<rparr>,
       PutObject \<lparr>Body = py_str (isprintable env) r, Bucket = bucket_name up, Key = u @ ''_repos.json''\<rparr>]"
    using repos_upload_is_made [of env api u w d w1 r w2 up x w3 g] by simp
next
  let ?k1 = "u @ ''_details.json''" and ?k2 = "u @ ''_repos.json''"
  let ?final = "calls (snd (upload_github_data_to_s3 env g api up u w))"
  obtain a w1 where a: "get_user_details env api u w = (a, w1)"
    by (cases "get_user_details env api u w")
  then have k1: "put_keys (calls w1) = put_keys (calls w)"
    using get_user_details_calls [of env api u w] by (simp add: put_keys_append)
  obtain b w2 where b: "get_user_repos env api u w1 = (b, w2)"
    by (cases "get_user_repos env api u w1")
  then have k2: "put_keys (calls w2) = put_keys (calls w)"
    using get_user_repos_calls [of env api u w1] k1 by (simp add: put_keys_append)
  let ?d = "case a of Inr d \<Rightarrow> d | Inl e \<Rightarrow> PyNone"
  obtain c w3 where c: "upload_data_to_s3 env up ?d ?k1 w2 = (c, w3)"
    by (cases "upload_data_to_s3 env up ?d ?k1 w2")
  then have k3: "put_keys (calls w3) = put_keys (calls w) @ [?k1]"
    using upload_data_to_s3_calls [of env up ?d ?k1 w2] k2 by (simp add: put_keys_append)
  have k4: "put_keys (calls (snd (upload_data_to_s3 env up v ?k2 w3))) =
      put_keys (calls w) @ [?k1, ?k2]" for v
    using k3 by (simp add: upload_data_to_s3_calls put_keys_append)
  have "put_keys ?final = put_keys (calls w) @ take 0 [?k1, ?k2]
      \<or> put_keys ?final = put_keys (calls w) @ take 1 [?k1, ?k2]
      \<or> put_keys ?final = put_keys (calls w) @ take 2 [?k1, ?k2]"
    using a b c k1 k2 k3 k4
    by (cases a; cases b; cases c)
      (simp_all add: handler_keeps_calls_and_objects upload_sequence_calls)
  then show "\<exists>n. put_keys ?final = put_keys (calls w) @ take n [?k1, ?k2]"
    by blast
qed


text \<open>
  For the username octocat the keys are \<^verbatim>\<open>octocat_details.json\<close> and \<^verbatim>\<open>octocat_repos.json\<close>.
\<close>

theorem upload_keys_are_derived_from_username_witness:
  "calls (snd (upload_github_data_to_s3 env_octocat (main_logger ''__main__'') example_api
        example_uploader ''octocat'' empty_world)) =
     [HttpCall \<lparr>http_method = ''GET'', url = ''https://api.example.com/users/octocat'',
                request_headers = [(''Authorization'', ''token abc'')], params = None\<rparr>,
      HttpCall \<lparr>http_method = ''GET'', url = ''https://api.example.com/users/octocat/repos'',
                request_headers = [(''Authorization'', ''token abc'')], params = None\<rparr>,
      PutObject \<lparr>Body = py_str (isprintable env_octocat) octocat_details,
                 Bucket = ''github-data'', Key = ''octocat_details.json''\<rparr>,
      PutObject \<lparr>Body = py_str (isprintable env_octocat) octocat_repos, Bucket = ''github-data'',
                 Key = ''octocat_repos.json''\<rparr>]
   \<and> put_keys (calls (snd (upload_github_data_to_s3 env_octocat (main_logger ''__main__'')
        example_api example_uploader ''octocat'' empty_world))) =
     [''octocat_details.json'', ''octocat_repos.json'']"
  using upload_keys_are_derived_from_username
    [where env = env_octocat and api = example_api and u = "''octocat''" and w = empty_world
       and up = example_uploader and g = "main_logger ''__main__''"
       and d = octocat_details and r = octocat_repos and x = put_ok
       and ?w1.0 = "snd (get_user_details env_octocat example_api ''octocat'' empty_world)"
       and ?w2.0 = "snd (get_user_repos env_octocat example_api ''octocat''
             (snd (get_user_details env_octocat example_api ''octocat'' empty_world)))"
       and ?w3.0 = "snd (upload_data_to_s3 env_octocat example_uploader octocat_details
             ''octocat_details.json''
             (snd (get_user_repos env_octocat example_api ''octocat''
               (snd (get_user_details env_octocat example_api ''octocat'' empty_world)))))"]
  by (simp add: get_user_details_eq get_user_repos_eq make_request_cases
      upload_data_to_s3_cases http_error_msg_def env_octocat_def example_api_def
      example_uploader_def empty_world_def)

text \<open>
  C10. When the two fetches and the two uploads return, whatever they return, the
  orchestrator of the module run as the script returns \<^verbatim>\<open>None\<close> and its last act is to log,
  at level INFO, the line that names the username. A run of the sequence that raises nothing
  is a run of the script: elsewhere the look-up of the logger raises.
\<close>

theorem success_line_logged_whatever_the_results:
  "(get_user_details env api u w = (Inr d, w1)
    \<and> get_user_repos env api u w1 = (Inr r, w2)
    \<and> upload_data_to_s3 env up d (u @ ''_details.json'') w2 = (Inr x, w3)
    \<and> upload_data_to_s3 env up r (u @ ''_repos.json'') w3 = (Inr y, w4) \<longrightarrow>
    upload_github_data_to_s3 env (main_logger ''__main__'') api up u w =
      (Inr PyNone,
       w4\<lparr>logged := logged w4 @
            [\<lparr>record_name = ''__main__'', record_level = INFO,
              record_message = ''User Details and Repositories for '' @ [CHR 0x27] @ u @
                [CHR 0x27] @ '' uploaded to S3''\<rparr>]\<rparr>))
   \<and> (fst (upload_sequence env (main_logger name) api up u w) = Inr v \<longrightarrow>
      name = ''__main__'')"
proof (intro conjI impI)
  assume "get_user_details env api u w = (Inr d, w1)
    \<and> get_user_repos env api u w1 = (Inr r, w2)
    \<and> upload_data_to_s3 env up d (u @ ''_details.json'') w2 = (Inr x, w3)
    \<and> upload_data_to_s3 env up r (u @ ''_repos.json'') w3 = (Inr y, w4)"
  then have "upload_sequence env (main_logger ''__main__'') api up u w =
      (Inr PyNone, snd (info (log_this_init ''__main__'' DEBUG) (success_line u) w4))"
    using upload_sequence_returns
            [of env api u w d w1 r w2 up x w3 y w4 "main_logger ''__main__''"]
    by (simp add: main_logger_def)
  then show "upload_github_data_to_s3 env (main_logger ''__main__'') api up u w =
      (Inr PyNone,
       w4\<lparr>logged := logged w4 @
            [\<lparr>record_name = ''__main__'', record_level = INFO,
              record_message = ''User Details and Repositories for '' @ [CHR 0x27] @ u @
                [CHR 0x27] @ '' uploaded to S3''\<rparr>]\<rparr>)"
    by (simp add: upload_github_data_to_s3_def py_try_def info_def log_call_def
        log_this_init_def makeRecord_def success_line_def)
next
  assume "fst (upload_sequence env (main_logger name) api up u w) = Inr v"
  then show "name = ''__main__''"
    by (simp add: upload_sequence_def py_bind_def main_logger_def global_logger_def
        py_raise_def split: prod.splits sum.splits if_splits)
qed

text \<open>
  Every fetch and every upload returns \<^verbatim>\<open>None\<close> (connection refused, access denied), nothing
  is stored, and the success line is still the last record.
\<close>

theorem success_line_logged_whatever_the_results_witness:
  "fst (get_user_details env_all_fail example_api ''octocat'' empty_world) = Inr PyNone
   \<and> fst (get_user_repos env_all_fail example_api ''octocat'' empty_world) = Inr PyNone
   \<and> fst (upload_data_to_s3 env_all_fail example_uploader PyNone ''octocat_details.json''
        empty_world) = Inr PyNone
   \<and> fst (upload_data_to_s3 env_all_fail example_uploader PyNone ''octocat_repos.json''
        empty_world) = Inr PyNone
   \<and> fst (upload_github_data_to_s3 env_all_fail (main_logger ''__main__'') example_api
        example_uploader ''octocat'' empty_world) = Inr PyNone
   \<and> last (logged (snd (upload_github_data_to_s3 env_all_fail (main_logger ''__main__'')
        example_api example_uploader ''octocat'' empty_world))) =
       \<lparr>record_name = ''__main__'', record_level = INFO,
        record_message = ''User Details and Repositories for '' @ [CHR 0x27] @ ''octocat'' @
          [CHR 0x27] @ '' uploaded to S3''\<rparr>
   \<and> objects (snd (upload_github_data_to_s3 env_all_fail (main_logger ''__main__'')
        example_api example_uploader ''octocat'' empty_world))
        (''github-data'', ''octocat_details.json'') = None"
  using success_line_logged_whatever_the_results
    [where env = env_all_fail and api = example_api and u = "''octocat''" and w = empty_world
       and up = example_uploader and d = PyNone and r = PyNone and x = PyNone and y = PyNone
       and name = "''__main__''" and v = PyNone
       and ?w1.0 = "snd (get_user_details env_all_fail example_api ''octocat'' empty_world)"
       and ?w2.0 = "snd (get_user_repos env_all_fail example_api ''octocat''
             (snd (get_user_details env_all_fail example_api ''octocat'' empty_world)))"
       and ?w3.0 = "snd (upload_data_to_s3 env_all_fail example_uploader PyNone
             ''octocat_details.json''
             (snd (get_user_repos env_all_fail example_api ''octocat''
               (snd (get_user_details env_all_fail example_api ''octocat'' empty_world)))))"
       and ?w4.0 = "snd (upload_data_to_s3 env_all_fail example_uploader PyNone
             ''octocat_repos.json''
             (snd (upload_data_to_s3 env_all_fail example_uploader PyNone
             ''octocat_details.json''
             (snd (get_user_repos env_all_fail example_api ''octocat''
               (snd (get_user_details env_all_fail example_api ''octocat'' empty_world)))))))"]
  by (simp add: run_defs env_all_fail_def connection_refused_def access_denied_def
      records_at_def makeRecord_def github_api_logger_def s3_uploader_logger_def)

text \<open>
  C3 at an input where the code departs from it: the module is imported under the name
  main, so its global \<^verbatim>\<open>logger\<close> is not bound. For the username octocat, with a provider and a
  store that work, the two fetches and the two uploads are made; then the success line
  cannot be logged, the handler catches the \<^verbatim>\<open>NameError\<close> and raises it again at its own
  logging call, and the caller receives it. No record at level ERROR is written.
\<close>

theorem orchestrator_raises_NameError_when_imported:
  "main_logger ''main'' = None
   \<and> fst (upload_github_data_to_s3 env_octocat (main_logger ''main'') example_api
        example_uploader ''octocat'' empty_world) =
       Inl (Exn Exception (''name '' @ [CHR 0x27] @ ''logger'' @ [CHR 0x27] @ '' is not defined''))
   \<and> put_keys (calls (snd (upload_github_data_to_s3 env_octocat (main_logger ''main'')
        example_api example_uploader ''octocat'' empty_world))) =
       [''octocat_details.json'', ''octocat_repos.json'']
   \<and> records_at ERROR (logged (snd (upload_github_data_to_s3 env_octocat (main_logger ''main'')
        example_api example_uploader ''octocat'' empty_world))) = []"
  by (simp add: run_defs env_octocat_def NameError_def records_at_def makeRecord_def
      octocat_details_def octocat_repos_def)


lemma orchestrator_script_logs_exception:
  "upload_sequence env (main_logger ''__main__'') api up u w = (Inl e, w') \<Longrightarrow>
   upload_github_data_to_s3 env (main_logger ''__main__'') api up u w =
     (Inr PyNone,
      w'\<lparr>logged := logged w' @
           [\<lparr>record_name = ''__main__'', record_level = ERROR,
             record_message =
               ''An error occurred during data fetching or uploading: '' @ exn_str e\<rparr>]\<rparr>)"
  by (simp add: upload_github_data_to_s3_def py_try_def py_bind_def main_logger_def
      global_logger_def py_return_def error_def log_call_def log_this_init_def makeRecord_def)

end
